theory Spec2Isabelle
  imports Main "HOL-Library.Sublist"
begin

section \<open>Data model\<close>

text \<open>
  The watch status of a piece of content for one profile. The source passes it around as
  one of the strings 'WATCHED', 'WATCHING' and 'NOT_WATCHED'.
\<close>

datatype WatchStatus = NOT_WATCHED | WATCHING | WATCHED

text \<open>
  The errors the code throws: \<open>DatabaseError\<close> wraps a failure of the store inside a
  model method, \<open>DriverError\<close> is a failure of the driver thrown outside any wrapper,
  \<open>BadRequestError\<close> and \<open>NotFoundError\<close> come from the services, \<open>ProviderError\<close> from
  the content provider.
\<close>

datatype error = DatabaseError | DriverError | BadRequestError | NotFoundError | ProviderError

text \<open>
  The fields of \<open>class Season\<close> and \<open>class Episode\<close> (src/models/episode.ts), without the
  optional \<open>id\<close>: a stored row is the pair of its id and these fields.
\<close>

record season =
  s_show_id :: nat
  s_tmdb_id :: nat
  s_name :: string
  s_overview :: string
  s_season_number :: int
  s_release_date :: string
  s_poster_image :: string
  s_number_of_episodes :: int

record episode =
  e_tmdb_id :: nat
  e_show_id :: nat
  e_season_id :: nat
  e_episode_number :: int
  e_episode_type :: string
  e_season_number :: int
  e_title :: string
  e_overview :: string
  e_air_date :: string
  e_runtime :: int
  e_still_image :: string

text \<open>
  A row of \<open>show_watch_status\<close>, \<open>season_watch_status\<close> or \<open>episode_watch_status\<close>.
  Profile ids reach every method as route parameters, that is as strings; the store's
  numeric column is carried as the canonical decimal string of its value, on which
  \<open>Number\<close> and the store's comparison of a string with a number are the identity.
\<close>

record watch_row =
  ws_profile_id :: string
  ws_content_id :: nat
  ws_status :: WatchStatus

record show_row =
  sh_tmdb_id :: nat
  sh_title :: string

record database =
  shows_table :: "(nat \<times> show_row) list"
  seasons :: "(nat \<times> season) list"
  episodes :: "(nat \<times> episode) list"
  show_watch_status :: "watch_row list"
  season_watch_status :: "watch_row list"
  episode_watch_status :: "watch_row list"
  profiles :: "(string \<times> nat) list"

text \<open>
  Every awaited operation on the store or the provider can throw. Which ones do is the
  environment's choice, given as a predicate on the operations.
\<close>

datatype io_op =
    OpGetConnection
  | OpBeginTransaction
  | OpCommit
  | OpRollback
  | OpSelectSeasonStatus
  | OpUpdateSeasonStatus
  | OpUpdateEpisodeStatuses
  | OpSelectWatchStatus
  | OpInsertSeason nat
  | OpInsertSeasonFavorite nat
  | OpInsertEpisode nat
  | OpInsertEpisodeFavorite nat
  | OpSelectAccountId
  | OpShowModel

type_synonym faults = "io_op \<Rightarrow> bool"

definition no_faults :: faults where
  "no_faults = (\<lambda>_. False)"

section \<open>The statements of the season model\<close>

text \<open>\<open>WHERE profile_id = ? AND season_id = ?\<close> on a watch-status table.\<close>

definition row_matches :: "string \<Rightarrow> nat \<Rightarrow> watch_row \<Rightarrow> bool" where
  "row_matches profileId contentId r \<longleftrightarrow> ws_profile_id r = profileId \<and> ws_content_id r = contentId"

text \<open>\<open>UPDATE t SET status = ? WHERE profile_id = ? AND P(content id)\<close>: the rows after
  the statement, and \<open>affectedRows\<close>, which with the driver's default flags is the number
  of rows the condition matched, changed or not.\<close>

definition update_where :: "string \<Rightarrow> (nat \<Rightarrow> bool) \<Rightarrow> WatchStatus \<Rightarrow> watch_row list \<Rightarrow> watch_row list" where
  "update_where profileId P st rows =
     map (\<lambda>r. if ws_profile_id r = profileId \<and> P (ws_content_id r) then r\<lparr>ws_status := st\<rparr> else r) rows"

definition affectedRows :: "string \<Rightarrow> (nat \<Rightarrow> bool) \<Rightarrow> watch_row list \<Rightarrow> nat" where
  "affectedRows profileId P rows =
     length (filter (\<lambda>r. ws_profile_id r = profileId \<and> P (ws_content_id r)) rows)"

text \<open>\<open>SELECT id FROM episodes WHERE season_id = ?\<close>, as a condition on an episode id.\<close>

definition episode_of_season :: "database \<Rightarrow> nat \<Rightarrow> nat \<Rightarrow> bool" where
  "episode_of_season db seasonId episodeId \<longleftrightarrow>
     list_ex (\<lambda>(i, e). i = episodeId \<and> e_season_id e = seasonId) (episodes db)"

text \<open>
  The rows of \<open>episodes e JOIN episode_watch_status ews ON e.id = ews.episode_id WHERE
  e.season_id = ? AND ews.profile_id = ?\<close>, projected on \<open>ews.status\<close>.
\<close>

definition episode_statuses :: "database \<Rightarrow> nat \<Rightarrow> string \<Rightarrow> WatchStatus list" where
  "episode_statuses db seasonId profileId =
     concat (map (\<lambda>(i, e).
        map ws_status (filter (\<lambda>ews. i = ws_content_id ews \<and> e_season_id e = seasonId
                                   \<and> ws_profile_id ews = profileId) (episode_watch_status db)))
       (episodes db))"

text \<open>
  \<open>MAX(ews.status)\<close>: NULL on no rows. The order of the column's values is declared in
  the schema, which is not among the sources; it is the parameter \<open>rk\<close>.
\<close>

definition sql_max :: "(WatchStatus \<Rightarrow> nat) \<Rightarrow> WatchStatus list \<Rightarrow> WatchStatus option" where
  "sql_max rk sts =
     (case sts of [] \<Rightarrow> None
      | x # xs \<Rightarrow> Some (foldl (\<lambda>a b. if rk a < rk b then b else a) x xs))"

text \<open>
  \<open>SELECT CASE WHEN COUNT(DISTINCT ews.status) = 1 THEN MAX(ews.status) ELSE 'WATCHING'
  END AS season_status\<close>. The select list is an aggregate and the statement has no GROUP
  BY, so the result is one row, also when the join has no rows.
\<close>

definition season_status_query :: "(WatchStatus \<Rightarrow> nat) \<Rightarrow> database \<Rightarrow> nat \<Rightarrow> string \<Rightarrow> WatchStatus option list" where
  "season_status_query rk db seasonId profileId =
     (let sts = episode_statuses db seasonId profileId
      in [if length (remdups sts) = 1 then sql_max rk sts else Some WATCHING])"

text \<open>\<open>Season.updateWatchStatus\<close>.\<close>

definition Season_updateWatchStatus :: "faults \<Rightarrow> string \<Rightarrow> nat \<Rightarrow> WatchStatus \<Rightarrow> database \<Rightarrow> (error + bool) \<times> database" where
  "Season_updateWatchStatus F profileId seasonId st db =
     (if F OpUpdateSeasonStatus then (Inl DatabaseError, db)
      else (Inr (affectedRows profileId (\<lambda>i. i = seasonId) (season_watch_status db) > 0),
            db\<lparr>season_watch_status :=
                 update_where profileId (\<lambda>i. i = seasonId) st (season_watch_status db)\<rparr>))"

text \<open>\<open>Season.getWatchStatus\<close>: the status of the first matching row, or null.\<close>

definition Season_getWatchStatus :: "faults \<Rightarrow> string \<Rightarrow> nat \<Rightarrow> database \<Rightarrow> error + WatchStatus option" where
  "Season_getWatchStatus F profileId seasonId db =
     (if F OpSelectWatchStatus then Inl DatabaseError
      else (case filter (row_matches profileId seasonId) (season_watch_status db) of
              [] \<Rightarrow> Inr None
            | r # _ \<Rightarrow> Inr (Some (ws_status r))))"

text \<open>
  \<open>Season.updateWatchStatusByEpisode\<close>. It returns early on an empty result set, and
  otherwise writes \<open>statusResult[0].season_status\<close>. The status column holds no NULL,
  so a NULL parameter would make the UPDATE throw; the SELECT never yields one.
\<close>

definition Season_updateWatchStatusByEpisode :: "faults \<Rightarrow> (WatchStatus \<Rightarrow> nat) \<Rightarrow> string \<Rightarrow> nat \<Rightarrow> database \<Rightarrow> (error + unit) \<times> database" where
  "Season_updateWatchStatusByEpisode F rk profileId seasonId db =
     (if F OpSelectSeasonStatus then (Inl DatabaseError, db)
      else (case season_status_query rk db seasonId profileId of
              [] \<Rightarrow> (Inr (), db)
            | seasonStatus # _ \<Rightarrow>
                if F OpUpdateSeasonStatus then (Inl DatabaseError, db)
                else (case seasonStatus of
                        None \<Rightarrow> (Inl DatabaseError, db)
                      | Some st \<Rightarrow>
                          (Inr (), db\<lparr>season_watch_status :=
                             update_where profileId (\<lambda>i. i = seasonId) st (season_watch_status db)\<rparr>))))"

section \<open>The cascading update and its transaction\<close>

text \<open>
  A pooled connection: the store as every other connection sees it (\<open>committed\<close>) and,
  while a transaction is open, the transaction's own copy (\<open>pending\<close>).
\<close>

record connection =
  committed :: database
  pending :: "database option"

definition getConnection :: "database \<Rightarrow> connection" where
  "getConnection d = \<lparr>committed = d, pending = None\<rparr>"

definition beginTransaction :: "connection \<Rightarrow> connection" where
  "beginTransaction c = c\<lparr>pending := Some (committed c)\<rparr>"

definition tx_view :: "connection \<Rightarrow> database" where
  "tx_view c = (case pending c of Some d \<Rightarrow> d | None \<Rightarrow> committed c)"

definition tx_write :: "database \<Rightarrow> connection \<Rightarrow> connection" where
  "tx_write d c = (case pending c of Some _ \<Rightarrow> c\<lparr>pending := Some d\<rparr> | None \<Rightarrow> c\<lparr>committed := d\<rparr>)"

definition commit :: "connection \<Rightarrow> connection" where
  "commit c = (case pending c of Some d \<Rightarrow> \<lparr>committed = d, pending = None\<rparr> | None \<Rightarrow> c)"

definition rollback :: "connection \<Rightarrow> connection" where
  "rollback c = c\<lparr>pending := None\<rparr>"

text \<open>
  The \<open>try\<close> block of \<open>Season.updateAllWatchStatuses\<close>: begin, update the season row,
  return false when it matched nothing, update the episode rows, commit, and return
  whether an episode row was matched. An \<open>Inl\<close> is a throw inside the block.
\<close>

definition updateAllWatchStatuses_try :: "faults \<Rightarrow> string \<Rightarrow> nat \<Rightarrow> WatchStatus \<Rightarrow> connection \<Rightarrow> (error + bool) \<times> connection" where
  "updateAllWatchStatuses_try F profileId seasonId st c0 =
     (if F OpBeginTransaction then (Inl DriverError, c0)
      else let c1 = beginTransaction c0 in
        if F OpUpdateSeasonStatus then (Inl DriverError, c1)
        else let d1 = tx_view c1;
                 seasonAffected = affectedRows profileId (\<lambda>i. i = seasonId) (season_watch_status d1);
                 c2 = tx_write (d1\<lparr>season_watch_status :=
                         update_where profileId (\<lambda>i. i = seasonId) st (season_watch_status d1)\<rparr>) c1
          in if seasonAffected = 0 then (Inr False, c2)
             else if F OpUpdateEpisodeStatuses then (Inl DriverError, c2)
             else let d2 = tx_view c2;
                      episodeAffected = affectedRows profileId (episode_of_season d2 seasonId)
                                          (episode_watch_status d2);
                      c3 = tx_write (d2\<lparr>episode_watch_status :=
                              update_where profileId (episode_of_season d2 seasonId) st
                                (episode_watch_status d2)\<rparr>) c2
               in if F OpCommit then (Inl DriverError, c3)
                  else (Inr (episodeAffected > 0), commit c3))"

text \<open>
  \<open>Season.updateAllWatchStatuses\<close>: the connection is taken outside the \<open>try\<close>; the
  \<open>catch\<close> rolls back and throws a \<open>DatabaseError\<close> (a rollback that throws itself
  replaces it); \<open>finally\<close> releases the connection, which changes nothing here.
\<close>

definition Season_updateAllWatchStatuses :: "faults \<Rightarrow> string \<Rightarrow> nat \<Rightarrow> WatchStatus \<Rightarrow> database \<Rightarrow> (error + bool) \<times> connection" where
  "Season_updateAllWatchStatuses F profileId seasonId st d =
     (if F OpGetConnection then (Inl DriverError, getConnection d)
      else (case updateAllWatchStatuses_try F profileId seasonId st (getConnection d) of
              (Inl e, c) \<Rightarrow>
                 if F OpRollback then (Inl DriverError, c) else (Inl DatabaseError, rollback c)
            | (Inr b, c) \<Rightarrow> (Inr b, c)))"

section \<open>The cache\<close>

text \<open>
  Modelled from the spec: the class \<open>CacheService\<close> (services/cacheService.ts) is not
  among the sources. Section 4.1 of the specification gives its contract: \<open>getOrSet\<close>
  returns the cached value if present and unexpired, otherwise invokes the producer and
  stores the result with the given TTL, and a producer's failure propagates and caches
  nothing; \<open>invalidate\<close> removes one key; \<open>invalidatePattern\<close> removes every key that
  starts with the prefix. A cached value is a JavaScript value: \<open>None\<close> is null.
\<close>

type_synonym 'v cache = "string \<rightharpoonup> ('v option \<times> nat)"

definition cache_get :: "nat \<Rightarrow> string \<Rightarrow> 'v cache \<Rightarrow> 'v option option" where
  "cache_get t key c = (case c key of None \<Rightarrow> None
                        | Some (v, expires) \<Rightarrow> if t < expires then Some v else None)"

definition cache_invalidate :: "string \<Rightarrow> 'v cache \<Rightarrow> 'v cache" where
  "cache_invalidate key c = c(key := None)"

definition cache_invalidatePattern :: "string \<Rightarrow> 'v cache \<Rightarrow> 'v cache" where
  "cache_invalidatePattern p c = (\<lambda>key. if prefix p key then None else c key)"

section \<open>The world of the show service\<close>

text \<open>A connected socket session: \<open>socket.data.accountId\<close> is whatever truthy value the
  client sent in its handshake (src/index.ts), a number or a string.\<close>

datatype js_id = JNum nat | JStr string

record socket =
  sock_id :: nat
  sock_accountId :: js_id

text \<open>An emitted event: the session it went to, its name, its message and its show.\<close>

record 'v emitted_event =
  ev_socket :: nat
  ev_name :: string
  ev_message :: string
  ev_show :: "'v option"

record 'v world =
  w_db :: database
  w_cache :: "'v cache"
  w_now :: nat
  w_log :: "string list"
  w_io :: "socket list option"
  w_emitted :: "'v emitted_event list"

text \<open>
  The \<open>Show\<close> model (models/show.ts) is not among the sources. The service is
  parametrised by its methods: each one maps the store to its result, an \<open>Inl\<close> being a
  throw. \<open>m_episodeData\<close> stands for the three reads \<open>getEpisodesForProfile\<close> combines.
\<close>

record 'v show_model =
  Show_updateWatchStatus :: "string \<Rightarrow> nat \<Rightarrow> WatchStatus \<Rightarrow> database \<Rightarrow> (error + bool) \<times> database"
  Show_updateAllWatchStatuses :: "string \<Rightarrow> nat \<Rightarrow> WatchStatus \<Rightarrow> database \<Rightarrow> (error + bool) \<times> database"
  Show_getAllShowsForProfile :: "string \<Rightarrow> database \<Rightarrow> error + 'v option"
  Show_getShowDetailsForProfile :: "string \<Rightarrow> string \<Rightarrow> database \<Rightarrow> error + 'v option"
  Show_getShowForProfile :: "string \<Rightarrow> nat \<Rightarrow> database \<Rightarrow> error + 'v option"
  Show_findByTMDBId :: "nat \<Rightarrow> database \<Rightarrow> error + (nat \<times> show_row) option"
  Show_save :: "show_row \<Rightarrow> database \<Rightarrow> (error + nat option) \<times> database"
  Show_saveFavorite :: "nat \<Rightarrow> string \<Rightarrow> bool \<Rightarrow> database \<Rightarrow> (error + unit) \<times> database"
  m_episodeData :: "string \<Rightarrow> database \<Rightarrow> error + 'v option"

text \<open>
  Modelled from the spec: \<open>errorService.handleError\<close> is not among the sources. Section 7
  says the engine only adds context to an error before rethrowing it.
\<close>

definition handleError :: "error \<Rightarrow> error" where
  "handleError e = e"

definition getOrSet :: "string \<Rightarrow> (database \<Rightarrow> error + 'v option) \<Rightarrow> nat \<Rightarrow> 'v world \<Rightarrow> (error + 'v option) \<times> 'v world" where
  "getOrSet key producer ttl w =
     (case cache_get (w_now w) key (w_cache w) of
        Some v \<Rightarrow> (Inr v, w)
      | None \<Rightarrow>
          (case producer (w_db w) of
             Inl e \<Rightarrow> (Inl e, w)
           | Inr v \<Rightarrow> (Inr v, w\<lparr>w_cache := (w_cache w)(key \<mapsto> (v, w_now w + ttl))\<rparr>)))"

definition invalidate :: "string \<Rightarrow> 'v world \<Rightarrow> 'v world" where
  "invalidate key w = w\<lparr>w_cache := cache_invalidate key (w_cache w)\<rparr>"

definition invalidatePattern :: "string \<Rightarrow> 'v world \<Rightarrow> 'v world" where
  "invalidatePattern p w = w\<lparr>w_cache := cache_invalidatePattern p (w_cache w)\<rparr>"

section \<open>The show service\<close>

text \<open>A number in a template literal: the decimal digits of a show id.\<close>

definition digit_char :: "nat \<Rightarrow> char" where
  "digit_char n = ''0123456789'' ! (n mod 10)"

function string_of_nat :: "nat \<Rightarrow> string" where
  "string_of_nat n = (if n < 10 then [digit_char n]
                      else string_of_nat (n div 10) @ [digit_char (n mod 10)])"
  by pat_completeness auto
termination
  by (relation "measure id") auto

declare string_of_nat.simps [simp del]

text \<open>\<open>CACHE_KEYS\<close>.\<close>

definition PROFILE_SHOWS :: "string \<Rightarrow> string" where
  "PROFILE_SHOWS profileId = ''profile_'' @ profileId @ ''_shows''"

definition PROFILE_SHOW :: "string \<Rightarrow> nat \<Rightarrow> string" where
  "PROFILE_SHOW profileId showId = ''profile_'' @ profileId @ ''_show_'' @ string_of_nat showId"

definition PROFILE_EPISODES :: "string \<Rightarrow> string" where
  "PROFILE_EPISODES profileId = ''profile_'' @ profileId @ ''_episodes''"

definition PROFILE_RECENT_EPISODES :: "string \<Rightarrow> string" where
  "PROFILE_RECENT_EPISODES profileId = ''profile_'' @ profileId @ ''_recent_episodes''"

definition PROFILE_UPCOMING_EPISODES :: "string \<Rightarrow> string" where
  "PROFILE_UPCOMING_EPISODES profileId = ''profile_'' @ profileId @ ''_upcoming_episodes''"

definition PROFILE_UNWATCHED_EPISODES :: "string \<Rightarrow> string" where
  "PROFILE_UNWATCHED_EPISODES profileId = ''profile_'' @ profileId @ ''_unwatched_episodes''"

text \<open>\<open>ShowService.invalidateProfileCache\<close>.\<close>

definition invalidateProfileCache :: "string \<Rightarrow> 'v world \<Rightarrow> 'v world" where
  "invalidateProfileCache profileId w = invalidatePattern (''profile_'' @ profileId) w"

text \<open>\<open>ShowService.getShowsForProfile\<close>.\<close>

definition getShowsForProfile :: "'v show_model \<Rightarrow> string \<Rightarrow> 'v world \<Rightarrow> (error + 'v option) \<times> 'v world" where
  "getShowsForProfile M profileId w =
     (case getOrSet (PROFILE_SHOWS profileId) (Show_getAllShowsForProfile M profileId) 600 w of
        (Inl e, w') \<Rightarrow> (Inl (handleError e), w')
      | (Inr v, w') \<Rightarrow> (Inr v, w'))"

text \<open>\<open>ShowService.getShowDetailsForProfile\<close>: \<open>assertExists\<close> throws on null.\<close>

definition getShowDetailsForProfile :: "'v show_model \<Rightarrow> string \<Rightarrow> string \<Rightarrow> 'v world \<Rightarrow> (error + 'v option) \<times> 'v world" where
  "getShowDetailsForProfile M profileId showId w =
     (case getOrSet (''profile_'' @ profileId @ ''_show_details_'' @ showId)
             (Show_getShowDetailsForProfile M profileId showId) 600 w of
        (Inl e, w') \<Rightarrow> (Inl (handleError e), w')
      | (Inr None, w') \<Rightarrow> (Inl (handleError NotFoundError), w')
      | (Inr (Some v), w') \<Rightarrow> (Inr (Some v), w'))"

text \<open>\<open>ShowService.getEpisodesForProfile\<close>.\<close>

definition getEpisodesForProfile :: "'v show_model \<Rightarrow> string \<Rightarrow> 'v world \<Rightarrow> (error + 'v option) \<times> 'v world" where
  "getEpisodesForProfile M profileId w =
     (case getOrSet (PROFILE_EPISODES profileId) (m_episodeData M profileId) 300 w of
        (Inl e, w') \<Rightarrow> (Inl (handleError e), w')
      | (Inr v, w') \<Rightarrow> (Inr v, w'))"

text \<open>\<open>ShowService.updateShowWatchStatus\<close>.\<close>

definition updateShowWatchStatus :: "'v show_model \<Rightarrow> string \<Rightarrow> nat \<Rightarrow> WatchStatus \<Rightarrow> bool \<Rightarrow> 'v world \<Rightarrow> (error + bool) \<times> 'v world" where
  "updateShowWatchStatus M profileId showId st recursive w =
     (case (if recursive then Show_updateAllWatchStatuses M profileId showId st (w_db w)
            else Show_updateWatchStatus M profileId showId st (w_db w)) of
        (Inl e, d) \<Rightarrow> (Inl (handleError e), w\<lparr>w_db := d\<rparr>)
      | (Inr success, d) \<Rightarrow>
          if \<not> success then (Inl (handleError BadRequestError), w\<lparr>w_db := d\<rparr>)
          else (Inr success,
                invalidate (PROFILE_UNWATCHED_EPISODES profileId)
                  (invalidate (PROFILE_SHOWS profileId)
                    (invalidate (PROFILE_SHOW profileId showId) (w\<lparr>w_db := d\<rparr>)))))"

section \<open>Persisting seasons and episodes\<close>

text \<open>\<open>insertId\<close> of an auto-increment key: above every id in the table.\<close>

definition insertId :: "nat list \<Rightarrow> nat" where
  "insertId ids = Suc (fold max ids 0)"

text \<open>
  Modelled from the spec: the schema is not among the sources. \<open>INSERT IGNORE\<close> names no
  status, so a new association takes the column's default, the initial \<open>NOT_WATCHED\<close>;
  and it inserts nothing when the profile already has an association for the content
  (section 3: at most one per profile and content).
\<close>

definition default_status :: WatchStatus where
  "default_status = NOT_WATCHED"

definition insert_ignore :: "string \<Rightarrow> nat \<Rightarrow> watch_row list \<Rightarrow> watch_row list" where
  "insert_ignore profileId contentId rows =
     (if list_ex (row_matches profileId contentId) rows then rows
      else rows @ [\<lparr>ws_profile_id = profileId, ws_content_id = contentId,
                    ws_status = default_status\<rparr>])"

text \<open>\<open>Season.save\<close>: a plain INSERT; the result is the new id.\<close>

definition Season_save :: "faults \<Rightarrow> season \<Rightarrow> database \<Rightarrow> (error + nat) \<times> database" where
  "Season_save F s d =
     (if F (OpInsertSeason (s_tmdb_id s)) then (Inl DatabaseError, d)
      else let i = insertId (map fst (seasons d))
           in (Inr i, d\<lparr>seasons := seasons d @ [(i, s)]\<rparr>))"

text \<open>\<open>Season.saveFavorite\<close>.\<close>

definition Season_saveFavorite :: "faults \<Rightarrow> string \<Rightarrow> nat \<Rightarrow> database \<Rightarrow> (error + unit) \<times> database" where
  "Season_saveFavorite F profileId seasonId d =
     (if F (OpInsertSeasonFavorite seasonId) then (Inl DatabaseError, d)
      else (Inr (), d\<lparr>season_watch_status :=
                         insert_ignore profileId seasonId (season_watch_status d)\<rparr>))"

text \<open>
  Modelled from the spec: the module \<open>db/episodesDb\<close> is not among the sources.
  \<open>saveEpisode\<close> persists an episode and returns it with its id, and \<open>saveFavorite\<close>
  marks it favorited for a profile; their statements are taken to be those of
  \<open>Episode.save\<close> and \<open>Episode.saveFavorite\<close> in src/models/episode.ts.
\<close>

definition episodesDb_saveEpisode :: "faults \<Rightarrow> episode \<Rightarrow> database \<Rightarrow> (error + nat) \<times> database" where
  "episodesDb_saveEpisode F ep d =
     (if F (OpInsertEpisode (e_tmdb_id ep)) then (Inl DatabaseError, d)
      else let i = insertId (map fst (episodes d))
           in (Inr i, d\<lparr>episodes := episodes d @ [(i, ep)]\<rparr>))"

definition episodesDb_saveFavorite :: "faults \<Rightarrow> string \<Rightarrow> nat \<Rightarrow> database \<Rightarrow> (error + unit) \<times> database" where
  "episodesDb_saveFavorite F profileId episodeId d =
     (if F (OpInsertEpisodeFavorite episodeId) then (Inl DatabaseError, d)
      else (Inr (), d\<lparr>episode_watch_status :=
                         insert_ignore profileId episodeId (episode_watch_status d)\<rparr>))"

section \<open>The content provider\<close>

text \<open>The fields of the provider's payloads that the loader reads.\<close>

record tmdb_episode =
  te_id :: nat
  te_episode_number :: int
  te_episode_type :: string
  te_season_number :: int
  te_name :: string
  te_overview :: string
  te_air_date :: string
  te_runtime :: int
  te_still_path :: string

record tmdb_season =
  ts_id :: nat
  ts_name :: string
  ts_overview :: string
  ts_season_number :: int
  ts_air_date :: string
  ts_poster_path :: string
  ts_episode_count :: int

record tmdb_show =
  tsh_id :: nat
  tsh_name :: string
  tsh_seasons :: "tmdb_season list"

text \<open>The provider's two calls; \<open>getSeasonDetails\<close> gives \<open>responseData.episodes\<close>.\<close>

record tmdb =
  getShowDetails :: "nat \<Rightarrow> error + tmdb_show"
  getSeasonDetails :: "nat \<Rightarrow> int \<Rightarrow> error + tmdb_episode list"

section \<open>The hierarchy loader\<close>

text \<open>\<open>new Season(showId, responseSeason.id, ...)\<close> in \<open>fetchSeasonsAndEpisodes\<close>.\<close>

definition Season_of :: "tmdb_season \<Rightarrow> nat \<Rightarrow> season" where
  "Season_of rs showId =
     \<lparr>s_show_id = showId, s_tmdb_id = ts_id rs, s_name = ts_name rs,
      s_overview = ts_overview rs, s_season_number = ts_season_number rs,
      s_release_date = ts_air_date rs, s_poster_image = ts_poster_path rs,
      s_number_of_episodes = ts_episode_count rs\<rparr>"

text \<open>\<open>episodesDb.createEpisode(responseEpisode.id, showId, season.id, ...)\<close>.\<close>

definition createEpisode :: "tmdb_episode \<Rightarrow> nat \<Rightarrow> nat \<Rightarrow> episode" where
  "createEpisode re showId seasonId =
     \<lparr>e_tmdb_id = te_id re, e_show_id = showId, e_season_id = seasonId,
      e_episode_number = te_episode_number re, e_episode_type = te_episode_type re,
      e_season_number = te_season_number re, e_title = te_name re,
      e_overview = te_overview re, e_air_date = te_air_date re,
      e_runtime = te_runtime re, e_still_image = te_still_path re\<rparr>"

text \<open>The inner loop: \<open>for (const responseEpisode of responseData.episodes)\<close>.\<close>

fun saveEpisodes :: "faults \<Rightarrow> nat \<Rightarrow> nat \<Rightarrow> string \<Rightarrow> tmdb_episode list \<Rightarrow> database \<Rightarrow> (error + unit) \<times> database" where
  "saveEpisodes F showId seasonId profileId [] d = (Inr (), d)"
| "saveEpisodes F showId seasonId profileId (re # res) d =
     (case episodesDb_saveEpisode F (createEpisode re showId seasonId) d of
        (Inl e, d1) \<Rightarrow> (Inl e, d1)
      | (Inr episodeId, d1) \<Rightarrow>
          (case episodesDb_saveFavorite F profileId episodeId d1 of
             (Inl e, d2) \<Rightarrow> (Inl e, d2)
           | (Inr u, d2) \<Rightarrow> saveEpisodes F showId seasonId profileId res d2))"

text \<open>The outer loop: \<open>for (const responseSeason of validSeasons)\<close>. The pause of 200 ms
  at the end of each round has no effect on the store.\<close>

fun loadSeasons :: "faults \<Rightarrow> tmdb \<Rightarrow> nat \<Rightarrow> nat \<Rightarrow> string \<Rightarrow> tmdb_season list \<Rightarrow> database \<Rightarrow> (error + unit) \<times> database" where
  "loadSeasons F P showTmdbId showId profileId [] d = (Inr (), d)"
| "loadSeasons F P showTmdbId showId profileId (rs # rss) d =
     (case getSeasonDetails P showTmdbId (ts_season_number rs) of
        Inl e \<Rightarrow> (Inl e, d)
      | Inr responseEpisodes \<Rightarrow>
          (case Season_save F (Season_of rs showId) d of
             (Inl e, d1) \<Rightarrow> (Inl e, d1)
           | (Inr seasonId, d1) \<Rightarrow>
               (case Season_saveFavorite F profileId seasonId d1 of
                  (Inl e, d2) \<Rightarrow> (Inl e, d2)
                | (Inr u, d2) \<Rightarrow>
                    (case saveEpisodes F showId seasonId profileId responseEpisodes d2 of
                       (Inl e, d3) \<Rightarrow> (Inl e, d3)
                     | (Inr u', d3) \<Rightarrow> loadSeasons F P showTmdbId showId profileId rss d3))))"

text \<open>
  Modelled from the spec: \<open>Account.findAccountIdByProfileId\<close> is not among the sources;
  it reads the account that owns a profile, null when there is none.
\<close>

definition Account_findAccountIdByProfileId :: "faults \<Rightarrow> string \<Rightarrow> database \<Rightarrow> error + nat option" where
  "Account_findAccountIdByProfileId F profileId d =
     (if F OpSelectAccountId then Inl DatabaseError else Inr (map_of (profiles d) profileId))"

text \<open>\<open>socket.data.accountId === account_id\<close>: the handshake's value is never null, and a
  string never equals a number.\<close>

definition same_account :: "js_id \<Rightarrow> nat option \<Rightarrow> bool" where
  "same_account a account_id = (case account_id of None \<Rightarrow> False | Some n \<Rightarrow> a = JNum n)"

text \<open>\<open>ShowService.notifyShowDataLoaded\<close>; \<open>w_io\<close> is \<open>getSocketInstance()\<close>.\<close>

definition notifyShowDataLoaded :: "faults \<Rightarrow> 'v show_model \<Rightarrow> string \<Rightarrow> nat \<Rightarrow> 'v world \<Rightarrow> 'v world" where
  "notifyShowDataLoaded F M profileId showId w =
     (case w_io w of
        None \<Rightarrow> w
      | Some sockets \<Rightarrow>
          (case Account_findAccountIdByProfileId F profileId (w_db w) of
             Inl e \<Rightarrow> w\<lparr>w_log := w_log w @ [''Error notifying show data loaded:'']\<rparr>
           | Inr account_id \<Rightarrow>
               (case Show_getShowForProfile M profileId showId (w_db w) of
                  Inl e \<Rightarrow> w\<lparr>w_log := w_log w @ [''Error notifying show data loaded:'']\<rparr>
                | Inr loadedShow \<Rightarrow>
                    (case find (\<lambda>s. same_account (sock_accountId s) account_id) sockets of
                       None \<Rightarrow> w
                     | Some userSocket \<Rightarrow>
                         w\<lparr>w_emitted := w_emitted w @
                              [\<lparr>ev_socket = sock_id userSocket, ev_name = ''updateShowFavorite'',
                                ev_message = ''Show data has been fully loaded'',
                                ev_show = loadedShow\<rparr>]\<rparr>))))"

text \<open>
  \<open>ShowService.fetchSeasonsAndEpisodes\<close>. Its result is how the promise settles: it is
  what a caller would receive.
\<close>

definition fetchSeasonsAndEpisodes :: "faults \<Rightarrow> tmdb \<Rightarrow> 'v show_model \<Rightarrow> tmdb_show \<Rightarrow> nat \<Rightarrow> string \<Rightarrow> 'v world \<Rightarrow> (error + unit) \<times> 'v world" where
  "fetchSeasonsAndEpisodes F P M show showId profileId w =
     (let validSeasons = filter (\<lambda>season. ts_season_number season > 0) (tsh_seasons show)
      in case loadSeasons F P (tsh_id show) showId profileId validSeasons (w_db w) of
           (Inr u, d) \<Rightarrow> (Inr (), notifyShowDataLoaded F M profileId showId (w\<lparr>w_db := d\<rparr>))
         | (Inl e, d) \<Rightarrow>
             (Inr (), w\<lparr>w_db := d,
                        w_log := w_log w @ [''Error fetching seasons and episodes:'']\<rparr>))"

section \<open>Favorites\<close>

record 'v favorite_result =
  favoritedShow :: "'v option"
  episodeData :: "'v option option"

text \<open>\<open>ShowService.favoriteExistingShow\<close>.\<close>

definition favoriteExistingShow :: "'v show_model \<Rightarrow> nat \<Rightarrow> string \<Rightarrow> 'v world \<Rightarrow> (error + 'v favorite_result) \<times> 'v world" where
  "favoriteExistingShow M showToFavoriteId profileId w =
     (case Show_saveFavorite M showToFavoriteId profileId True (w_db w) of
        (Inl e, d) \<Rightarrow> (Inl e, w\<lparr>w_db := d\<rparr>)
      | (Inr u, d) \<Rightarrow>
          let w1 = invalidateProfileCache profileId (w\<lparr>w_db := d\<rparr>)
          in (case Show_getShowForProfile M profileId showToFavoriteId (w_db w1) of
                Inl e \<Rightarrow> (Inl e, w1)
              | Inr show \<Rightarrow>
                  (case getEpisodesForProfile M profileId w1 of
                     (Inl e, w2) \<Rightarrow> (Inl e, w2)
                   | (Inr ed, w2) \<Rightarrow>
                       (Inr \<lparr>favoritedShow = show, episodeData = Some ed\<rparr>, w2))))"

text \<open>
  \<open>ShowService.favoriteNewShow\<close>. The show row keeps the provider's id and name. The
  loader is started without being awaited; here it runs to its end after the response
  has been computed.
\<close>

definition favoriteNewShow :: "faults \<Rightarrow> tmdb \<Rightarrow> 'v show_model \<Rightarrow> nat \<Rightarrow> string \<Rightarrow> 'v world \<Rightarrow> (error + 'v favorite_result) \<times> 'v world" where
  "favoriteNewShow F P M showId profileId w =
     (case getShowDetails P showId of
        Inl e \<Rightarrow> (Inl e, w)
      | Inr responseShow \<Rightarrow>
          (case Show_save M \<lparr>sh_tmdb_id = tsh_id responseShow, sh_title = tsh_name responseShow\<rparr>
                  (w_db w) of
             (Inl e, d) \<Rightarrow> (Inl e, w\<lparr>w_db := d\<rparr>)
           | (Inr None, d) \<Rightarrow> (Inl BadRequestError, w\<lparr>w_db := d\<rparr>)
           | (Inr (Some newId), d) \<Rightarrow>
               (case Show_saveFavorite M newId profileId False d of
                  (Inl e, d1) \<Rightarrow> (Inl e, w\<lparr>w_db := d1\<rparr>)
                | (Inr u, d1) \<Rightarrow>
                    let w1 = invalidateProfileCache profileId (w\<lparr>w_db := d1\<rparr>)
                    in (case Show_getShowForProfile M profileId newId (w_db w1) of
                          Inl e \<Rightarrow> (Inl e, w1)
                        | Inr show \<Rightarrow>
                            (Inr \<lparr>favoritedShow = show, episodeData = None\<rparr>,
                             snd (fetchSeasonsAndEpisodes F P M responseShow newId profileId w1))))))"

text \<open>\<open>ShowService.addShowToFavorites\<close>.\<close>

definition addShowToFavorites :: "faults \<Rightarrow> tmdb \<Rightarrow> 'v show_model \<Rightarrow> string \<Rightarrow> nat \<Rightarrow> 'v world \<Rightarrow> (error + 'v favorite_result) \<times> 'v world" where
  "addShowToFavorites F P M profileId showId w =
     (case Show_findByTMDBId M showId (w_db w) of
        Inl e \<Rightarrow> (Inl (handleError e), w)
      | Inr existingShowToFavorite \<Rightarrow>
          (case (case existingShowToFavorite of
                   Some (i, row) \<Rightarrow> favoriteExistingShow M i profileId w
                 | None \<Rightarrow> favoriteNewShow F P M showId profileId w) of
             (Inl e, w') \<Rightarrow> (Inl (handleError e), w')
           | (Inr r, w') \<Rightarrow> (Inr r, w')))"

section \<open>A Show model from the specification\<close>

text \<open>
  Modelled from the spec: the \<open>Show\<close> model (models/show.ts) is not among the sources.
  This instance follows sections 3, 4.2 and 4.5 of the specification, with the views
  reduced to the ids and watch statuses they carry, and with the statements of the
  sibling \<open>Season\<close> model one level up: the show-only update, the cascading update
  that returns no affected episode when the show-level row did not exist, and a
  favorite that attaches the show and, when asked to cascade, its seasons and episodes.
\<close>

datatype view =
    ShowView nat WatchStatus
  | ShowsView "(nat \<times> WatchStatus) list"
  | EpisodesView "(nat \<times> WatchStatus) list"

definition season_of_show :: "database \<Rightarrow> nat \<Rightarrow> nat \<Rightarrow> bool" where
  "season_of_show d showId seasonId \<longleftrightarrow>
     list_ex (\<lambda>(i, s). i = seasonId \<and> s_show_id s = showId) (seasons d)"

definition episode_of_show :: "database \<Rightarrow> nat \<Rightarrow> nat \<Rightarrow> bool" where
  "episode_of_show d showId episodeId \<longleftrightarrow>
     list_ex (\<lambda>(i, e). i = episodeId \<and> e_show_id e = showId) (episodes d)"

definition spec_updateWatchStatus :: "faults \<Rightarrow> string \<Rightarrow> nat \<Rightarrow> WatchStatus \<Rightarrow> database \<Rightarrow> (error + bool) \<times> database" where
  "spec_updateWatchStatus F profileId showId st d =
     (if F OpShowModel then (Inl DatabaseError, d)
      else (Inr (affectedRows profileId (\<lambda>i. i = showId) (show_watch_status d) > 0),
            d\<lparr>show_watch_status :=
                 update_where profileId (\<lambda>i. i = showId) st (show_watch_status d)\<rparr>))"

definition spec_updateAllWatchStatuses :: "faults \<Rightarrow> string \<Rightarrow> nat \<Rightarrow> WatchStatus \<Rightarrow> database \<Rightarrow> (error + bool) \<times> database" where
  "spec_updateAllWatchStatuses F profileId showId st d =
     (if F OpShowModel then (Inl DatabaseError, d)
      else if affectedRows profileId (\<lambda>i. i = showId) (show_watch_status d) = 0
      then (Inr False, d)
      else (Inr (affectedRows profileId (episode_of_show d showId) (episode_watch_status d) > 0),
            d\<lparr>show_watch_status :=
                 update_where profileId (\<lambda>i. i = showId) st (show_watch_status d),
               season_watch_status :=
                 update_where profileId (season_of_show d showId) st (season_watch_status d),
               episode_watch_status :=
                 update_where profileId (episode_of_show d showId) st (episode_watch_status d)\<rparr>))"

definition spec_getAllShowsForProfile :: "faults \<Rightarrow> string \<Rightarrow> database \<Rightarrow> error + view option" where
  "spec_getAllShowsForProfile F profileId d =
     (if F OpShowModel then Inl DatabaseError
      else Inr (Some (ShowsView (map (\<lambda>r. (ws_content_id r, ws_status r))
                  (filter (\<lambda>r. ws_profile_id r = profileId) (show_watch_status d))))))"

definition spec_getShowForProfile :: "faults \<Rightarrow> string \<Rightarrow> nat \<Rightarrow> database \<Rightarrow> error + view option" where
  "spec_getShowForProfile F profileId showId d =
     (if F OpShowModel then Inl DatabaseError
      else (case filter (row_matches profileId showId) (show_watch_status d) of
              [] \<Rightarrow> Inr None
            | r # _ \<Rightarrow> Inr (Some (ShowView showId (ws_status r)))))"

definition spec_getShowDetailsForProfile :: "faults \<Rightarrow> string \<Rightarrow> string \<Rightarrow> database \<Rightarrow> error + view option" where
  "spec_getShowDetailsForProfile F profileId showId d =
     (if F OpShowModel then Inl DatabaseError
      else (case filter (\<lambda>r. ws_profile_id r = profileId \<and> string_of_nat (ws_content_id r) = showId)
                   (show_watch_status d) of
              [] \<Rightarrow> Inr None
            | r # _ \<Rightarrow> Inr (Some (ShowView (ws_content_id r) (ws_status r)))))"

definition spec_findByTMDBId :: "faults \<Rightarrow> nat \<Rightarrow> database \<Rightarrow> error + (nat \<times> show_row) option" where
  "spec_findByTMDBId F tmdbId d =
     (if F OpShowModel then Inl DatabaseError
      else Inr (find (\<lambda>(i, row). sh_tmdb_id row = tmdbId) (shows_table d)))"

definition spec_save :: "faults \<Rightarrow> show_row \<Rightarrow> database \<Rightarrow> (error + nat option) \<times> database" where
  "spec_save F row d =
     (if F OpShowModel then (Inl DatabaseError, d)
      else let i = insertId (map fst (shows_table d))
           in (Inr (Some i), d\<lparr>shows_table := shows_table d @ [(i, row)]\<rparr>))"

definition spec_saveFavorite :: "faults \<Rightarrow> nat \<Rightarrow> string \<Rightarrow> bool \<Rightarrow> database \<Rightarrow> (error + unit) \<times> database" where
  "spec_saveFavorite F showId profileId cascade d =
     (if F OpShowModel then (Inl DatabaseError, d)
      else let d1 = d\<lparr>show_watch_status := insert_ignore profileId showId (show_watch_status d)\<rparr>
           in if \<not> cascade then (Inr (), d1)
              else (Inr (),
                    d1\<lparr>season_watch_status :=
                         fold (\<lambda>(i, s). insert_ignore profileId i)
                           (filter (\<lambda>(i, s). s_show_id s = showId) (seasons d1))
                           (season_watch_status d1),
                       episode_watch_status :=
                         fold (\<lambda>(i, e). insert_ignore profileId i)
                           (filter (\<lambda>(i, e). e_show_id e = showId) (episodes d1))
                           (episode_watch_status d1)\<rparr>))"

definition spec_episodeData :: "faults \<Rightarrow> string \<Rightarrow> database \<Rightarrow> error + view option" where
  "spec_episodeData F profileId d =
     (if F OpShowModel then Inl DatabaseError
      else Inr (Some (EpisodesView (map (\<lambda>r. (ws_content_id r, ws_status r))
                  (filter (\<lambda>r. ws_profile_id r = profileId) (episode_watch_status d))))))"

definition spec_show_model :: "faults \<Rightarrow> view show_model" where
  "spec_show_model F =
     \<lparr>Show_updateWatchStatus = spec_updateWatchStatus F,
      Show_updateAllWatchStatuses = spec_updateAllWatchStatuses F,
      Show_getAllShowsForProfile = spec_getAllShowsForProfile F,
      Show_getShowDetailsForProfile = spec_getShowDetailsForProfile F,
      Show_getShowForProfile = spec_getShowForProfile F,
      Show_findByTMDBId = spec_findByTMDBId F,
      Show_save = spec_save F,
      Show_saveFavorite = spec_saveFavorite F,
      m_episodeData = spec_episodeData F\<rparr>"

section \<open>A small store\<close>

text \<open>
  Profile 1 of account 7 has favorited show 1, whose seasons are 10 (episodes 1 and 2,
  both watched), 11 (episodes 3 and 4, one watched) and 12 (no episode yet).
\<close>

definition example_season :: "nat \<Rightarrow> int \<Rightarrow> season" where
  "example_season t n =
     \<lparr>s_show_id = 1, s_tmdb_id = t, s_name = ''Season'', s_overview = [],
      s_season_number = n, s_release_date = ''2023-01-01'', s_poster_image = [],
      s_number_of_episodes = 2\<rparr>"

definition example_episode :: "nat \<Rightarrow> nat \<Rightarrow> int \<Rightarrow> episode" where
  "example_episode t seasonId n =
     \<lparr>e_tmdb_id = t, e_show_id = 1, e_season_id = seasonId, e_episode_number = n,
      e_episode_type = ''standard'', e_season_number = 1, e_title = ''Episode'',
      e_overview = [], e_air_date = ''2023-01-01'', e_runtime = 42, e_still_image = []\<rparr>"

definition example_row :: "string \<Rightarrow> nat \<Rightarrow> WatchStatus \<Rightarrow> watch_row" where
  "example_row p c st = \<lparr>ws_profile_id = p, ws_content_id = c, ws_status = st\<rparr>"

definition example_db :: database where
  "example_db =
     \<lparr>shows_table = [(1, \<lparr>sh_tmdb_id = 1399, sh_title = ''Show''\<rparr>)],
      seasons = [(10, example_season 3624 1), (11, example_season 3625 2),
                 (12, example_season 3626 3)],
      episodes = [(1, example_episode 63056 10 1), (2, example_episode 63057 10 2),
                  (3, example_episode 63066 11 1), (4, example_episode 63067 11 2)],
      show_watch_status = [example_row ''1'' 1 NOT_WATCHED],
      season_watch_status = [example_row ''1'' 10 NOT_WATCHED, example_row ''1'' 11 NOT_WATCHED,
                             example_row ''1'' 12 WATCHED],
      episode_watch_status = [example_row ''1'' 1 WATCHED, example_row ''1'' 2 WATCHED,
                              example_row ''1'' 3 WATCHED, example_row ''1'' 4 NOT_WATCHED],
      profiles = [(''1'', 7), (''12'', 8)]\<rparr>"

text \<open>An environment in which exactly the update of the episode rows throws.\<close>

definition episode_step_fails :: faults where
  "episode_step_fails = (\<lambda>op. op = OpUpdateEpisodeStatuses)"

text \<open>
  The service over the small store: an empty cache, the socket server initialised, and
  three connected sessions, one of account 8 and two of account 7.
\<close>

definition example_world :: "view world" where
  "example_world =
     \<lparr>w_db = example_db, w_cache = Map.empty, w_now = 0, w_log = [],
      w_io = Some [\<lparr>sock_id = 1, sock_accountId = JNum 8\<rparr>,
                   \<lparr>sock_id = 2, sock_accountId = JNum 7\<rparr>,
                   \<lparr>sock_id = 3, sock_accountId = JNum 7\<rparr>],
      w_emitted = []\<rparr>"

text \<open>The same with the show list of profile 12 in the cache.\<close>

definition example_cached_world :: "view world" where
  "example_cached_world =
     example_world\<lparr>w_cache := [PROFILE_SHOWS ''12'' \<mapsto> (Some (ShowsView []), 600)]\<rparr>"

text \<open>The world after profile 1 has read the details of show 1 once.\<close>

definition example_read_world :: "view world" where
  "example_read_world =
     snd (getShowDetailsForProfile (spec_show_model no_faults) ''1'' ''1'' example_world)"

section \<open>What a store keeps\<close>

text \<open>
  The store \<open>d'\<close> extends \<open>d\<close>: every row of \<open>d\<close> is still there, in its place, and
  rows were only appended to the seasons, the episodes and their associations.
\<close>

definition store_extends :: "database \<Rightarrow> database \<Rightarrow> bool" where
  "store_extends d d' \<longleftrightarrow>
     prefix (seasons d) (seasons d') \<and> prefix (episodes d) (episodes d') \<and>
     prefix (season_watch_status d) (season_watch_status d') \<and>
     prefix (episode_watch_status d) (episode_watch_status d') \<and>
     shows_table d' = shows_table d \<and> show_watch_status d' = show_watch_status d \<and>
     profiles d' = profiles d"

section \<open>A small provider\<close>

text \<open>
  The provider knows show 1399 with a season of specials (number 0) and the seasons 1
  (two episodes) and 2 (one episode). A second provider fails on season 2, a third one
  fails on season 1 and answers for season 2.
\<close>

definition example_tmdb_season :: "nat \<Rightarrow> int \<Rightarrow> tmdb_season" where
  "example_tmdb_season t n =
     \<lparr>ts_id = t, ts_name = ''Season'', ts_overview = [], ts_season_number = n,
      ts_air_date = ''2023-01-01'', ts_poster_path = [], ts_episode_count = 2\<rparr>"

definition example_tmdb_episode :: "nat \<Rightarrow> int \<Rightarrow> tmdb_episode" where
  "example_tmdb_episode t n =
     \<lparr>te_id = t, te_episode_number = n, te_episode_type = ''standard'', te_season_number = 1,
      te_name = ''Episode'', te_overview = [], te_air_date = ''2023-01-01'', te_runtime = 42,
      te_still_path = []\<rparr>"

definition example_show :: tmdb_show where
  "example_show =
     \<lparr>tsh_id = 1399, tsh_name = ''Show'',
      tsh_seasons = [example_tmdb_season 3627 0, example_tmdb_season 3624 1,
                     example_tmdb_season 3625 2]\<rparr>"

definition example_details :: "int \<Rightarrow> tmdb_episode list" where
  "example_details n =
     (if n = 1 then [example_tmdb_episode 63056 1, example_tmdb_episode 63057 2]
      else [example_tmdb_episode 63066 1])"

definition example_tmdb :: tmdb where
  "example_tmdb =
     \<lparr>getShowDetails = (\<lambda>i. if i = 1399 then Inr example_show else Inl ProviderError),
      getSeasonDetails = (\<lambda>i n. if i = 1399 \<and> (n = 1 \<or> n = 2) then Inr (example_details n)
                                  else Inl ProviderError)\<rparr>"




text \<open>The store right after profile 1 has favorited the new show 1, and its world.\<close>

definition fresh_db :: database where
  "fresh_db =
     \<lparr>shows_table = [(1, \<lparr>sh_tmdb_id = 1399, sh_title = ''Show''\<rparr>)],
      seasons = [], episodes = [],
      show_watch_status = [example_row ''1'' 1 NOT_WATCHED],
      season_watch_status = [], episode_watch_status = [],
      profiles = [(''1'', 7), (''12'', 8)]\<rparr>"

definition fresh_world :: "view world" where
  "fresh_world = example_world\<lparr>w_db := fresh_db\<rparr>"

section \<open>Favoriting twice\<close>

text \<open>The key of an association: its profile and its content.\<close>

definition assoc_key :: "watch_row \<Rightarrow> string \<times> nat" where
  "assoc_key r = (ws_profile_id r, ws_content_id r)"

text \<open>
  A store that does not know show 1399 yet, its world, and the world after profile 1
  has favorited the show and the load has completed.
\<close>

definition blank_db :: database where
  "blank_db = fresh_db\<lparr>shows_table := [], show_watch_status := []\<rparr>"

definition blank_world :: "view world" where
  "blank_world = example_world\<lparr>w_db := blank_db\<rparr>"

definition first_ingestion :: "view world" where
  "first_ingestion =
     snd (addShowToFavorites no_faults example_tmdb (spec_show_model no_faults) ''1'' 1399
            blank_world)"

section \<open>Recomputing a season from its episodes\<close>

lemma sql_max_all_eq:
  assumes "sts \<noteq> []" and "\<forall>s \<in> set sts. s = S"
  shows "sql_max rk sts = Some S"
proof -
  have fold_const: "foldl (\<lambda>a b. if rk a < rk b then b else a) S xs = S"
    if "\<forall>s \<in> set xs. s = S" for xs
    using that by (induction xs) auto
  from assms(1) obtain x xs where sts: "sts = x # xs" by (cases sts) auto
  with assms(2) have "x = S" "\<forall>s \<in> set xs. s = S" by auto
  then show ?thesis using fold_const[of xs] by (simp add: sql_max_def sts)
qed

lemma remdups_all_eq:
  assumes "sts \<noteq> []" and "\<forall>s \<in> set sts. s = S"
  shows "length (remdups sts) = 1"
proof -
  from assms have "set sts = {S}" by (cases sts) auto
  then have "card (set sts) = 1" by simp
  then show ?thesis by (simp add: length_remdups_card_conv)
qed

lemma remdups_two_distinct:
  assumes "a \<in> set sts" and "b \<in> set sts" and "a \<noteq> b"
  shows "length (remdups sts) \<noteq> 1"
proof
  assume "length (remdups sts) = 1"
  then have "card (set sts) = 1" by (simp add: length_remdups_card_conv)
  then obtain c where "set sts = {c}" by (auto simp: card_1_singleton_iff)
  with assms show False by auto
qed

lemma season_status_never_null: "None \<notin> set (season_status_query rk d sid pid)"
proof -
  have "sql_max rk sts \<noteq> None" if "length (remdups sts) = 1" for sts
  proof -
    from that have "sts \<noteq> []" by auto
    then show ?thesis by (cases sts) (simp_all add: sql_max_def)
  qed
  then show ?thesis
    unfolding season_status_query_def Let_def by (metis empty_iff empty_set option.distinct(1) set_ConsD)
qed

lemma getWatchStatus_update_where:
  assumes "\<not> F OpSelectWatchStatus" and "list_ex (row_matches pid sid) rows"
  shows "Season_getWatchStatus F pid sid
     (d\<lparr>season_watch_status := update_where pid (\<lambda>i. i = sid) st rows\<rparr>) = Inr (Some st)"
  using assms
proof (induction rows)
  case Nil then show ?case by simp
next
  case (Cons r rows)
  then show ?case
    by (auto simp: Season_getWatchStatus_def update_where_def row_matches_def split: list.splits)
qed

lemma byEpisode_writes:
  assumes "\<not> F OpSelectSeasonStatus" and "\<not> F OpUpdateSeasonStatus"
    and "season_status_query rk d sid pid = [Some st]"
  shows "Season_updateWatchStatusByEpisode F rk pid sid d =
     (Inr (), d\<lparr>season_watch_status := update_where pid (\<lambda>i. i = sid) st (season_watch_status d)\<rparr>)"
  using assms by (simp add: Season_updateWatchStatusByEpisode_def)

lemma byEpisode_stored_status:
  assumes ok: "\<not> F OpSelectSeasonStatus" "\<not> F OpUpdateSeasonStatus" "\<not> F OpSelectWatchStatus"
    and stored: "list_ex (row_matches pid sid) (season_watch_status d)"
    and q: "season_status_query rk d sid pid = [Some st]"
  shows "fst (Season_updateWatchStatusByEpisode F rk pid sid d) = Inr () \<and>
      Season_getWatchStatus F pid sid
        (snd (Season_updateWatchStatusByEpisode F rk pid sid d)) = Inr (Some st)"
proof -
  note run = byEpisode_writes[where F = F, OF ok(1) ok(2) q]
  note got = getWatchStatus_update_where[where F = F and pid = pid and sid = sid
      and rows = "season_watch_status d" and d = d and st = st, OF ok(3) stored]
  show ?thesis
    unfolding run fst_conv snd_conv using got by simp
qed

text \<open>
  Claim C1. For a profile and a season with at least one episode association, and a
  stored season status, recomputing the season from its episodes succeeds and leaves
  the stored status S when every episode association has status S, and \<open>WATCHING\<close>
  when two associations differ. The order of the status column plays no part.
\<close>

theorem recompute_season_from_episodes:
  assumes assoc: "episode_statuses d seasonId profileId \<noteq> []"
    and ok: "\<not> F OpSelectSeasonStatus" "\<not> F OpUpdateSeasonStatus" "\<not> F OpSelectWatchStatus"
    and stored: "list_ex (row_matches profileId seasonId) (season_watch_status d)"
  shows "((\<forall>s \<in> set (episode_statuses d seasonId profileId). s = S) \<longrightarrow>
            fst (Season_updateWatchStatusByEpisode F rk profileId seasonId d) = Inr () \<and>
            Season_getWatchStatus F profileId seasonId
              (snd (Season_updateWatchStatusByEpisode F rk profileId seasonId d)) = Inr (Some S))
       \<and> ((\<exists>a \<in> set (episode_statuses d seasonId profileId).
            \<exists>b \<in> set (episode_statuses d seasonId profileId). a \<noteq> b) \<longrightarrow>
            fst (Season_updateWatchStatusByEpisode F rk profileId seasonId d) = Inr () \<and>
            Season_getWatchStatus F profileId seasonId
              (snd (Season_updateWatchStatusByEpisode F rk profileId seasonId d)) = Inr (Some WATCHING))"
proof -
  note written = byEpisode_stored_status[where F = F and rk = rk, OF ok stored]
  have uniform: "season_status_query rk d seasonId profileId = [Some S]"
    if "\<forall>s \<in> set (episode_statuses d seasonId profileId). s = S"
    using assoc that by (simp add: season_status_query_def remdups_all_eq sql_max_all_eq)
  have mixed: "season_status_query rk d seasonId profileId = [Some WATCHING]"
    if "\<exists>a \<in> set (episode_statuses d seasonId profileId).
        \<exists>b \<in> set (episode_statuses d seasonId profileId). a \<noteq> b"
  proof -
    from that obtain a b where "a \<in> set (episode_statuses d seasonId profileId)"
      "b \<in> set (episode_statuses d seasonId profileId)" "a \<noteq> b" by blast
    then have "length (remdups (episode_statuses d seasonId profileId)) \<noteq> 1"
      by (rule remdups_two_distinct)
    then show ?thesis unfolding season_status_query_def Let_def by (simp only: if_False)
  qed
  show ?thesis
    using written[OF uniform] written[OF mixed] by blast
qed


text \<open>Seasons 10 (all watched) and 11 (mixed) of the small store.\<close>

lemma example_statuses_10: "episode_statuses example_db 10 ''1'' = [WATCHED, WATCHED]"
  by (simp add: episode_statuses_def example_db_def example_row_def example_episode_def)

lemma example_statuses_11: "episode_statuses example_db 11 ''1'' = [WATCHED, NOT_WATCHED]"
  by (simp add: episode_statuses_def example_db_def example_row_def example_episode_def)

lemma example_stored_10: "list_ex (row_matches ''1'' 10) (season_watch_status example_db)"
  by (simp add: example_db_def example_row_def row_matches_def)

lemma example_stored_11: "list_ex (row_matches ''1'' 11) (season_watch_status example_db)"
  by (simp add: example_db_def example_row_def row_matches_def)

theorem recompute_season_from_episodes_witness:
  "Season_getWatchStatus no_faults ''1'' 10
     (snd (Season_updateWatchStatusByEpisode no_faults (\<lambda>_. 0) ''1'' 10 example_db)) = Inr (Some WATCHED)
   \<and> Season_getWatchStatus no_faults ''1'' 11
     (snd (Season_updateWatchStatusByEpisode no_faults (\<lambda>_. 0) ''1'' 11 example_db)) = Inr (Some WATCHING)"
proof -
  have nf: "\<not> no_faults OpSelectSeasonStatus" "\<not> no_faults OpUpdateSeasonStatus"
    "\<not> no_faults OpSelectWatchStatus" by (simp_all add: no_faults_def)
  have ne10: "episode_statuses example_db 10 ''1'' \<noteq> []" by (simp add: example_statuses_10)
  have ne11: "episode_statuses example_db 11 ''1'' \<noteq> []" by (simp add: example_statuses_11)
  from recompute_season_from_episodes[where F = no_faults and S = WATCHED and rk = "\<lambda>_. 0",
      OF ne10 nf example_stored_10]
  have a: "Season_getWatchStatus no_faults ''1'' 10
     (snd (Season_updateWatchStatusByEpisode no_faults (\<lambda>_. 0) ''1'' 10 example_db)) = Inr (Some WATCHED)"
    by (simp add: example_statuses_10)
  from recompute_season_from_episodes[where F = no_faults and S = WATCHED and rk = "\<lambda>_. 0",
      OF ne11 nf example_stored_11]
  have b: "Season_getWatchStatus no_faults ''1'' 11
     (snd (Season_updateWatchStatusByEpisode no_faults (\<lambda>_. 0) ''1'' 11 example_db)) = Inr (Some WATCHING)"
    by (auto simp add: example_statuses_11)
  from a b show ?thesis by simp
qed

text \<open>
  Claim C2 says that recomputing a season with no episode association leaves the stored
  season status unchanged. The statement's result set is never empty, so the early
  return is not taken: the stored status becomes \<open>WATCHING\<close>, whatever it was.
\<close>

theorem recompute_without_episodes_writes_watching:
  assumes none: "episode_statuses d seasonId profileId = []"
    and ok: "\<not> F OpSelectSeasonStatus" "\<not> F OpUpdateSeasonStatus" "\<not> F OpSelectWatchStatus"
    and stored: "list_ex (row_matches profileId seasonId) (season_watch_status d)"
  shows "fst (Season_updateWatchStatusByEpisode F rk profileId seasonId d) = Inr () \<and>
         Season_getWatchStatus F profileId seasonId
           (snd (Season_updateWatchStatusByEpisode F rk profileId seasonId d)) = Inr (Some WATCHING)"
proof -
  have "season_status_query rk d seasonId profileId = [Some WATCHING]"
    by (simp add: season_status_query_def none)
  then show ?thesis
    by (rule byEpisode_stored_status[where F = F and rk = rk, OF ok stored])
qed

text \<open>Season 12 of the small store: watched before, \<open>WATCHING\<close> after.\<close>

lemma example_statuses_12: "episode_statuses example_db 12 ''1'' = []"
  by (simp add: episode_statuses_def example_db_def example_row_def example_episode_def)

lemma example_stored_12: "list_ex (row_matches ''1'' 12) (season_watch_status example_db)"
  by (simp add: example_db_def example_row_def row_matches_def)

theorem recompute_without_episodes_writes_watching_witness:
  "Season_getWatchStatus no_faults ''1'' 12 example_db = Inr (Some WATCHED)
   \<and> Season_getWatchStatus no_faults ''1'' 12
     (snd (Season_updateWatchStatusByEpisode no_faults (\<lambda>_. 0) ''1'' 12 example_db)) = Inr (Some WATCHING)"
proof -
  have nf: "\<not> no_faults OpSelectSeasonStatus" "\<not> no_faults OpUpdateSeasonStatus"
    "\<not> no_faults OpSelectWatchStatus" by (simp_all add: no_faults_def)
  have before: "Season_getWatchStatus no_faults ''1'' 12 example_db = Inr (Some WATCHED)"
    by (simp add: Season_getWatchStatus_def no_faults_def example_db_def example_row_def
        row_matches_def)
  from recompute_without_episodes_writes_watching[where F = no_faults and rk = "\<lambda>_. 0",
      OF example_statuses_12 nf example_stored_12] before
  show ?thesis by simp
qed

section \<open>The cascading update of a season\<close>

lemma update_where_none:
  "affectedRows pid P rows = 0 \<Longrightarrow> update_where pid P st rows = rows"
  by (induction rows) (auto simp: affectedRows_def update_where_def split: if_splits)

lemma try_until_episode_step:
  assumes "\<not> F OpBeginTransaction" "\<not> F OpUpdateSeasonStatus"
    and "affectedRows pid (\<lambda>i. i = sid) (season_watch_status d) > 0"
    and "F OpUpdateEpisodeStatuses"
  shows "updateAllWatchStatuses_try F pid sid st (getConnection d) =
     (Inl DriverError,
      \<lparr>committed = d,
       pending = Some (d\<lparr>season_watch_status :=
                   update_where pid (\<lambda>i. i = sid) st (season_watch_status d)\<rparr>)\<rparr>)"
  using assms
  by (simp add: updateAllWatchStatuses_try_def getConnection_def beginTransaction_def
      tx_view_def tx_write_def Let_def)

text \<open>
  Claim C3. When the update of the episode rows throws after the season row was
  updated inside the transaction, the call throws, and the store is the one before
  the call: the season row has its old status and no episode row has changed. With a
  rollback that does not throw itself the error is a \<open>DatabaseError\<close> and no
  transaction stays open.
\<close>

theorem cascade_rolls_back_on_episode_failure:
  assumes ok: "\<not> F OpGetConnection" "\<not> F OpBeginTransaction" "\<not> F OpUpdateSeasonStatus"
    and parent: "affectedRows profileId (\<lambda>i. i = seasonId) (season_watch_status d) > 0"
    and fails: "F OpUpdateEpisodeStatuses"
  shows "season_watch_status (tx_view (snd (updateAllWatchStatuses_try F profileId seasonId st
             (getConnection d)))) =
           update_where profileId (\<lambda>i. i = seasonId) st (season_watch_status d)
       \<and> (\<exists>e. fst (Season_updateAllWatchStatuses F profileId seasonId st d) = Inl e)
       \<and> committed (snd (Season_updateAllWatchStatuses F profileId seasonId st d)) = d
       \<and> (\<not> F OpRollback \<longrightarrow>
            Season_updateAllWatchStatuses F profileId seasonId st d =
              (Inl DatabaseError, \<lparr>committed = d, pending = None\<rparr>))"
proof -
  note t = try_until_episode_step[where F = F and st = st, OF ok(2) ok(3) parent fails]
  show ?thesis
    using ok(1) by (simp add: Season_updateAllWatchStatuses_def t tx_view_def rollback_def)
qed


theorem cascade_rolls_back_on_episode_failure_witness:
  "Season_updateAllWatchStatuses episode_step_fails ''1'' 10 WATCHING example_db =
     (Inl DatabaseError, \<lparr>committed = example_db, pending = None\<rparr>)
   \<and> season_watch_status (tx_view (snd (updateAllWatchStatuses_try episode_step_fails ''1'' 10
         WATCHING (getConnection example_db)))) =
       [example_row ''1'' 10 WATCHING, example_row ''1'' 11 NOT_WATCHED,
        example_row ''1'' 12 WATCHED]"
proof -
  have ok: "\<not> episode_step_fails OpGetConnection" "\<not> episode_step_fails OpBeginTransaction"
    "\<not> episode_step_fails OpUpdateSeasonStatus" and nr: "\<not> episode_step_fails OpRollback"
    and fails: "episode_step_fails OpUpdateEpisodeStatuses"
    by (simp_all add: episode_step_fails_def)
  have parent: "affectedRows ''1'' (\<lambda>i. i = 10) (season_watch_status example_db) > 0"
    by (simp add: affectedRows_def example_db_def example_row_def)
  have upd: "update_where ''1'' (\<lambda>i. i = 10) WATCHING (season_watch_status example_db) =
       [example_row ''1'' 10 WATCHING, example_row ''1'' 11 NOT_WATCHED,
        example_row ''1'' 12 WATCHED]"
    by (simp add: update_where_def example_db_def example_row_def)
  from cascade_rolls_back_on_episode_failure[where F = episode_step_fails and st = WATCHING,
      OF ok parent fails] nr upd
  show ?thesis by simp
qed

text \<open>
  Claim C4 says that a status update reports success whenever the parent-level row
  exists and was updated. The cascading season update returns whether an episode row
  was matched: with a season row and no episode association it commits the new season
  status and returns false, where \<open>Season.updateWatchStatus\<close> returns true.
\<close>

theorem cascade_reports_failure_after_update:
  assumes ok: "\<not> F OpGetConnection" "\<not> F OpBeginTransaction" "\<not> F OpUpdateSeasonStatus"
      "\<not> F OpUpdateEpisodeStatuses" "\<not> F OpCommit"
    and parent: "affectedRows profileId (\<lambda>i. i = seasonId) (season_watch_status d) > 0"
    and none: "affectedRows profileId (episode_of_season d seasonId) (episode_watch_status d) = 0"
  shows "Season_updateAllWatchStatuses F profileId seasonId st d =
           (Inr False,
            \<lparr>committed = d\<lparr>season_watch_status :=
                 update_where profileId (\<lambda>i. i = seasonId) st (season_watch_status d)\<rparr>,
             pending = None\<rparr>)"
proof -
  let ?d1 = "d\<lparr>season_watch_status :=
                 update_where profileId (\<lambda>i. i = seasonId) st (season_watch_status d)\<rparr>"
  have same: "episode_of_season ?d1 seasonId = episode_of_season d seasonId"
    by (simp add: episode_of_season_def fun_eq_iff)
  have keep: "update_where profileId (episode_of_season d seasonId) st (episode_watch_status d) =
      episode_watch_status d"
    using none by (rule update_where_none)
  have "updateAllWatchStatuses_try F profileId seasonId st (getConnection d) =
      (Inr False, \<lparr>committed = ?d1, pending = None\<rparr>)"
    using ok parent none
    by (simp add: updateAllWatchStatuses_try_def getConnection_def beginTransaction_def
        tx_view_def tx_write_def commit_def Let_def same keep)
  then show ?thesis
    using ok(1) by (simp add: Season_updateAllWatchStatuses_def)
qed

theorem cascade_reports_failure_after_update_witness:
  "fst (Season_updateAllWatchStatuses no_faults ''1'' 12 NOT_WATCHED example_db) = Inr False
   \<and> fst (Season_updateWatchStatus no_faults ''1'' 12 NOT_WATCHED example_db) = Inr True
   \<and> Season_getWatchStatus no_faults ''1'' 12 example_db = Inr (Some WATCHED)
   \<and> Season_getWatchStatus no_faults ''1'' 12
       (committed (snd (Season_updateAllWatchStatuses no_faults ''1'' 12 NOT_WATCHED example_db)))
       = Inr (Some NOT_WATCHED)"
proof -
  have ok: "\<not> no_faults OpGetConnection" "\<not> no_faults OpBeginTransaction"
    "\<not> no_faults OpUpdateSeasonStatus" "\<not> no_faults OpUpdateEpisodeStatuses"
    "\<not> no_faults OpCommit"
    by (simp_all add: no_faults_def)
  have parent: "affectedRows ''1'' (\<lambda>i. i = 12) (season_watch_status example_db) > 0"
    by (simp add: affectedRows_def example_db_def example_row_def)
  have none: "affectedRows ''1'' (episode_of_season example_db 12)
                (episode_watch_status example_db) = 0"
    by (simp add: affectedRows_def episode_of_season_def example_db_def example_row_def
        example_episode_def)
  have before: "Season_getWatchStatus no_faults ''1'' 12 example_db = Inr (Some WATCHED)"
    by (simp add: Season_getWatchStatus_def no_faults_def example_db_def example_row_def
        row_matches_def)
  have after: "Season_getWatchStatus no_faults ''1'' 12
      (example_db\<lparr>season_watch_status :=
         update_where ''1'' (\<lambda>i. i = 12) NOT_WATCHED (season_watch_status example_db)\<rparr>)
      = Inr (Some NOT_WATCHED)"
    by (simp add: Season_getWatchStatus_def no_faults_def example_db_def example_row_def
        row_matches_def update_where_def)
  have sibling: "fst (Season_updateWatchStatus no_faults ''1'' 12 NOT_WATCHED example_db) = Inr True"
    using parent by (simp add: Season_updateWatchStatus_def no_faults_def)
  from cascade_reports_failure_after_update[where F = no_faults and st = NOT_WATCHED,
      OF ok parent none] before after sibling
  show ?thesis by simp
qed

section \<open>The cache keys of a profile\<close>

text \<open>
  Claim C10. \<open>invalidateProfileCache\<close> invalidates by the prefix \<open>profile_<id>\<close> with
  nothing after the id: when the id of one profile is a prefix of the id of another,
  invalidating the first removes every key of the second, its show list, its shows
  and its episodes among them.
\<close>

theorem invalidate_profile_reaches_longer_ids:
  assumes "prefix p q"
  shows "(\<forall>key. prefix (''profile_'' @ q) key \<longrightarrow>
            w_cache (invalidateProfileCache p w) key = None)
       \<and> w_cache (invalidateProfileCache p w) (PROFILE_SHOWS q) = None
       \<and> w_cache (invalidateProfileCache p w) (PROFILE_SHOW q showId) = None
       \<and> w_cache (invalidateProfileCache p w) (PROFILE_EPISODES q) = None"
proof -
  have reach: "prefix (''profile_'' @ p) key" if "prefix (''profile_'' @ q) key" for key
  proof -
    from assms have "prefix (''profile_'' @ p) (''profile_'' @ q)"
      by (simp only: same_prefix_prefix)
    with that show ?thesis by (meson prefix_order.trans)
  qed
  have gone: "w_cache (invalidateProfileCache p w) key = None"
    if "prefix (''profile_'' @ q) key" for key
    using reach[OF that]
    by (simp add: invalidateProfileCache_def invalidatePattern_def cache_invalidatePattern_def)
  have k1: "prefix (''profile_'' @ q) (PROFILE_SHOWS q)"
    unfolding PROFILE_SHOWS_def by (metis append.assoc prefixI)
  have k2: "prefix (''profile_'' @ q) (PROFILE_SHOW q showId)"
    unfolding PROFILE_SHOW_def by (metis append.assoc prefixI)
  have k3: "prefix (''profile_'' @ q) (PROFILE_EPISODES q)"
    unfolding PROFILE_EPISODES_def by (metis append.assoc prefixI)
  show ?thesis using gone k1 k2 k3 by blast
qed

text \<open>Profiles 1 and 12: the cached show list of profile 12 is gone.\<close>

theorem invalidate_profile_reaches_longer_ids_witness:
  "w_cache example_cached_world (PROFILE_SHOWS ''12'') = Some (Some (ShowsView []), 600)
   \<and> w_cache (invalidateProfileCache ''1'' example_cached_world) (PROFILE_SHOWS ''12'') = None"
proof -
  have p: "prefix ''1'' ''12''" by simp
  have before: "w_cache example_cached_world (PROFILE_SHOWS ''12'') = Some (Some (ShowsView []), 600)"
    by (simp add: example_cached_world_def example_world_def)
  from invalidate_profile_reaches_longer_ids[OF p, of example_cached_world] before
  show ?thesis by simp
qed

section \<open>The cache after a status update\<close>

lemma string_of_nat_digits: "set (string_of_nat n) \<subseteq> set ''0123456789''"
proof (induction n rule: string_of_nat.induct)
  case (1 n)
  have d: "digit_char m \<in> set ''0123456789''" for m
  proof -
    have "m mod 10 < length ''0123456789''" by simp
    then show ?thesis unfolding digit_char_def by (rule nth_mem)
  qed
  show ?case
  proof (cases "n < 10")
    case True
    then show ?thesis using d[of n] by (subst string_of_nat.simps) simp
  next
    case False
    with 1 have "set (string_of_nat (n div 10)) \<subseteq> set ''0123456789''" by simp
    then show ?thesis using False d[of "n mod 10"] by (subst string_of_nat.simps) auto
  qed
qed

lemma string_of_nat_not_details: "string_of_nat n \<noteq> ''details_'' @ sid"
proof
  assume "string_of_nat n = ''details_'' @ sid"
  then have "CHR ''d'' \<in> set (string_of_nat n)" by simp
  with string_of_nat_digits[of n] show False by auto
qed

lemma details_key_not_show:
  "''profile_'' @ pid @ ''_show_details_'' @ sid \<noteq> PROFILE_SHOW pid showId"
  using string_of_nat_not_details[of showId sid] by (auto simp: PROFILE_SHOW_def)

lemma details_key_not_shows:
  "''profile_'' @ pid @ ''_show_details_'' @ sid \<noteq> PROFILE_SHOWS pid"
  by (simp add: PROFILE_SHOWS_def)

lemma details_key_not_unwatched:
  "''profile_'' @ pid @ ''_show_details_'' @ sid \<noteq> PROFILE_UNWATCHED_EPISODES pid"
  by (simp add: PROFILE_UNWATCHED_EPISODES_def)

lemma episodes_key_not_invalidated:
  "PROFILE_EPISODES pid \<noteq> PROFILE_SHOW pid showId"
  "PROFILE_EPISODES pid \<noteq> PROFILE_SHOWS pid"
  "PROFILE_EPISODES pid \<noteq> PROFILE_UNWATCHED_EPISODES pid"
  by (simp_all add: PROFILE_EPISODES_def PROFILE_SHOW_def PROFILE_SHOWS_def
      PROFILE_UNWATCHED_EPISODES_def)

lemma updateShowWatchStatus_success:
  assumes "updateShowWatchStatus M pid showId st recursive w = (Inr True, w')"
  shows "\<exists>d. w' = invalidate (PROFILE_UNWATCHED_EPISODES pid)
                  (invalidate (PROFILE_SHOWS pid)
                    (invalidate (PROFILE_SHOW pid showId) (w\<lparr>w_db := d\<rparr>)))"
  using assms unfolding updateShowWatchStatus_def
  by (auto split: prod.splits sum.splits if_splits)

text \<open>
  Claim C5 says that a successful \<open>updateShowWatchStatus\<close> invalidates the show's
  details and the profile's unwatched episodes. The details are cached under
  \<open>profile_<id>_show_details_<show>\<close> and the episode lists under
  \<open>profile_<id>_episodes\<close>; the update invalidates \<open>profile_<id>_show_<show>\<close>,
  \<open>profile_<id>_shows\<close> and \<open>profile_<id>_unwatched_episodes\<close>. Both entries
  survive the update, and the next read of the details returns the cached value.
\<close>

theorem update_leaves_show_details_cached:
  assumes upd: "updateShowWatchStatus M profileId showId st recursive w = (Inr True, w')"
  shows "w_cache w' (''profile_'' @ profileId @ ''_show_details_'' @ sid) =
           w_cache w (''profile_'' @ profileId @ ''_show_details_'' @ sid)
       \<and> w_cache w' (PROFILE_EPISODES profileId) = w_cache w (PROFILE_EPISODES profileId)
       \<and> (\<forall>v. cache_get (w_now w) (''profile_'' @ profileId @ ''_show_details_'' @ sid) (w_cache w)
                 = Some (Some v) \<longrightarrow>
              getShowDetailsForProfile M profileId sid w' = (Inr (Some v), w'))"
proof -
  from updateShowWatchStatus_success[OF upd] obtain d where
    w': "w' = invalidate (PROFILE_UNWATCHED_EPISODES profileId)
                  (invalidate (PROFILE_SHOWS profileId)
                    (invalidate (PROFILE_SHOW profileId showId) (w\<lparr>w_db := d\<rparr>)))" by blast
  have c1: "w_cache w' (''profile_'' @ profileId @ ''_show_details_'' @ sid) =
           w_cache w (''profile_'' @ profileId @ ''_show_details_'' @ sid)"
    using details_key_not_show[of profileId sid showId] details_key_not_shows[of profileId sid]
      details_key_not_unwatched[of profileId sid]
    by (simp add: w' invalidate_def cache_invalidate_def)
  have c2: "w_cache w' (PROFILE_EPISODES profileId) = w_cache w (PROFILE_EPISODES profileId)"
    using episodes_key_not_invalidated
    by (simp add: w' invalidate_def cache_invalidate_def)
  have now: "w_now w' = w_now w" by (simp add: w' invalidate_def)
  have c3: "getShowDetailsForProfile M profileId sid w' = (Inr (Some v), w')"
    if "cache_get (w_now w) (''profile_'' @ profileId @ ''_show_details_'' @ sid) (w_cache w)
          = Some (Some v)" for v
  proof -
    from that have "cache_get (w_now w') (''profile_'' @ profileId @ ''_show_details_'' @ sid)
        (w_cache w') = Some (Some v)"
      unfolding cache_get_def c1 now .
    then show ?thesis by (simp add: getShowDetailsForProfile_def getOrSet_def)
  qed
  show ?thesis using c1 c2 c3 by blast
qed


text \<open>Profile 1 reads show 1, marks it watched, and reads it again.\<close>

lemma string_of_nat_1: "string_of_nat (Suc 0) = ''1''"
  by (subst string_of_nat.simps) (simp add: digit_char_def)

lemma example_first_read:
  "getShowDetailsForProfile (spec_show_model no_faults) ''1'' ''1'' example_world =
     (Inr (Some (ShowView 1 NOT_WATCHED)),
      example_world\<lparr>w_cache := [''profile_1_show_details_1'' \<mapsto>
                                   (Some (ShowView 1 NOT_WATCHED), 600)]\<rparr>)"
  by (simp add: getShowDetailsForProfile_def getOrSet_def cache_get_def example_world_def
      spec_show_model_def spec_getShowDetailsForProfile_def no_faults_def example_db_def
      example_row_def string_of_nat_1)

lemma example_read_world_eq:
  "example_read_world =
     example_world\<lparr>w_cache := [''profile_1_show_details_1'' \<mapsto>
                                   (Some (ShowView 1 NOT_WATCHED), 600)]\<rparr>"
  by (simp add: example_read_world_def example_first_read)

lemma example_update:
  "fst (updateShowWatchStatus (spec_show_model no_faults) ''1'' 1 WATCHED False
          example_read_world) = Inr True"
  by (simp add: updateShowWatchStatus_def example_read_world_eq example_world_def
      spec_show_model_def spec_updateWatchStatus_def no_faults_def example_db_def
      example_row_def affectedRows_def)

lemma example_update_db:
  "show_watch_status (w_db (snd (updateShowWatchStatus (spec_show_model no_faults) ''1'' 1
          WATCHED False example_read_world))) = [example_row ''1'' 1 WATCHED]"
  by (simp add: updateShowWatchStatus_def example_read_world_eq example_world_def
      spec_show_model_def spec_updateWatchStatus_def no_faults_def example_db_def
      example_row_def affectedRows_def update_where_def invalidate_def)

theorem update_leaves_show_details_cached_witness:
  "fst (getShowDetailsForProfile (spec_show_model no_faults) ''1'' ''1'' example_world)
     = Inr (Some (ShowView 1 NOT_WATCHED))
   \<and> fst (updateShowWatchStatus (spec_show_model no_faults) ''1'' 1 WATCHED False
          example_read_world) = Inr True
   \<and> fst (getShowDetailsForProfile (spec_show_model no_faults) ''1'' ''1''
          (snd (updateShowWatchStatus (spec_show_model no_faults) ''1'' 1 WATCHED False
             example_read_world))) = Inr (Some (ShowView 1 NOT_WATCHED))
   \<and> spec_getShowDetailsForProfile no_faults ''1'' ''1''
          (w_db (snd (updateShowWatchStatus (spec_show_model no_faults) ''1'' 1 WATCHED False
             example_read_world))) = Inr (Some (ShowView 1 WATCHED))"
proof -
  let ?M = "spec_show_model no_faults"
  let ?u = "updateShowWatchStatus ?M ''1'' 1 WATCHED False example_read_world"
  have upd: "?u = (Inr True, snd ?u)"
    using example_update by (cases ?u) simp
  have cached: "cache_get (w_now example_read_world) (''profile_'' @ ''1'' @ ''_show_details_'' @ ''1'')
      (w_cache example_read_world) = Some (Some (ShowView 1 NOT_WATCHED))"
    by (simp add: example_read_world_eq example_world_def cache_get_def)
  from update_leaves_show_details_cached[OF upd, of "''1''"] cached
  have stale: "getShowDetailsForProfile ?M ''1'' ''1'' (snd ?u)
      = (Inr (Some (ShowView 1 NOT_WATCHED)), snd ?u)" by blast
  have fresh: "spec_getShowDetailsForProfile no_faults ''1'' ''1'' (w_db (snd ?u))
      = Inr (Some (ShowView 1 WATCHED))"
    unfolding spec_getShowDetailsForProfile_def example_update_db
    by (simp add: no_faults_def example_row_def string_of_nat_1)
  show ?thesis
    using example_first_read example_update stale fresh by simp
qed

section \<open>The hierarchy loader\<close>

subsection \<open>The loader only appends\<close>

lemma store_extends_refl: "store_extends d d"
  by (simp add: store_extends_def)

lemma store_extends_trans:
  "store_extends a b \<Longrightarrow> store_extends b c \<Longrightarrow> store_extends a c"
  unfolding store_extends_def by (metis prefix_order.trans)

lemma insert_ignore_prefix: "prefix rows (insert_ignore pid cid rows)"
  by (simp add: insert_ignore_def)

lemma insert_ignore_favorited: "list_ex (row_matches pid cid) (insert_ignore pid cid rows)"
  by (simp add: insert_ignore_def row_matches_def)

lemma list_ex_prefix: "prefix xs ys \<Longrightarrow> list_ex P xs \<Longrightarrow> list_ex P ys"
  by (auto simp: prefix_def)

lemma Season_save_extends:
  "Season_save F s d = (r, d') \<Longrightarrow> store_extends d d'"
  by (auto simp: Season_save_def store_extends_def Let_def split: if_splits)

lemma Season_saveFavorite_extends:
  "Season_saveFavorite F pid sid d = (r, d') \<Longrightarrow> store_extends d d'"
  by (auto simp: Season_saveFavorite_def store_extends_def insert_ignore_prefix split: if_splits)

lemma saveEpisode_extends:
  "episodesDb_saveEpisode F ep d = (r, d') \<Longrightarrow> store_extends d d'"
  by (auto simp: episodesDb_saveEpisode_def store_extends_def Let_def split: if_splits)

lemma saveFavorite_extends:
  "episodesDb_saveFavorite F pid eid d = (r, d') \<Longrightarrow> store_extends d d'"
  by (auto simp: episodesDb_saveFavorite_def store_extends_def insert_ignore_prefix split: if_splits)

lemma saveEpisodes_extends:
  "saveEpisodes F showId sid pid res d = (r, d') \<Longrightarrow> store_extends d d'"
proof (induction res arbitrary: d)
  case Nil
  then show ?case by (simp add: store_extends_refl)
next
  case (Cons re res)
  obtain r1 d1 where s1: "episodesDb_saveEpisode F (createEpisode re showId sid) d = (r1, d1)"
    by (cases "episodesDb_saveEpisode F (createEpisode re showId sid) d")
  note e1 = saveEpisode_extends[OF s1]
  show ?case
  proof (cases r1)
    case (Inl e)
    with Cons.prems s1 e1 show ?thesis by simp
  next
    case (Inr eid)
    obtain r2 d2 where s2: "episodesDb_saveFavorite F pid eid d1 = (r2, d2)"
      by (cases "episodesDb_saveFavorite F pid eid d1")
    note e2 = store_extends_trans[OF e1 saveFavorite_extends[OF s2]]
    show ?thesis
    proof (cases r2)
      case (Inl e)
      with Cons.prems s1 s2 Inr e2 show ?thesis by simp
    next
      case (Inr u)
      with Cons.prems s1 s2 \<open>r1 = Inr eid\<close>
      have "saveEpisodes F showId sid pid res d2 = (r, d')" by simp
      from store_extends_trans[OF e2 Cons.IH[OF this]] show ?thesis .
    qed
  qed
qed

lemma loadSeasons_extends:
  "loadSeasons F P t showId pid rss d = (r, d') \<Longrightarrow> store_extends d d'"
proof (induction rss arbitrary: d)
  case Nil
  then show ?case by (simp add: store_extends_refl)
next
  case (Cons rs rss)
  show ?case
  proof (cases "getSeasonDetails P t (ts_season_number rs)")
    case (Inl e)
    with Cons.prems show ?thesis by (simp add: store_extends_refl)
  next
    case (Inr eps)
    obtain r1 d1 where s1: "Season_save F (Season_of rs showId) d = (r1, d1)"
      by (cases "Season_save F (Season_of rs showId) d")
    note e1 = Season_save_extends[OF s1]
    show ?thesis
    proof (cases r1)
      case (Inl e)
      with Cons.prems Inr s1 e1 show ?thesis by simp
    next
      case r1: (Inr seasonId)
      obtain r2 d2 where s2: "Season_saveFavorite F pid seasonId d1 = (r2, d2)"
        by (cases "Season_saveFavorite F pid seasonId d1")
      note e2 = store_extends_trans[OF e1 Season_saveFavorite_extends[OF s2]]
      show ?thesis
      proof (cases r2)
        case (Inl e)
        with Cons.prems Inr s1 r1 s2 e2 show ?thesis by simp
      next
        case r2: (Inr u)
        obtain r3 d3 where s3: "saveEpisodes F showId seasonId pid eps d2 = (r3, d3)"
          by (cases "saveEpisodes F showId seasonId pid eps d2")
        note e3 = store_extends_trans[OF e2 saveEpisodes_extends[OF s3]]
        show ?thesis
        proof (cases r3)
          case (Inl e)
          with Cons.prems Inr s1 r1 s2 r2 s3 e3 show ?thesis by simp
        next
          case r3: (Inr u')
          with Cons.prems Inr s1 r1 s2 r2 s3
          have "loadSeasons F P t showId pid rss d3 = (r, d')" by simp
          from store_extends_trans[OF e3 Cons.IH[OF this]] show ?thesis .
        qed
      qed
    qed
  qed
qed

lemma loadSeasons_append:
  "loadSeasons F P t showId pid (xs @ ys) d =
     (case loadSeasons F P t showId pid xs d of
        (Inl e, d1) \<Rightarrow> (Inl e, d1)
      | (Inr u, d1) \<Rightarrow> loadSeasons F P t showId pid ys d1)"
  by (induction xs arbitrary: d) (auto split: sum.splits prod.splits)


subsection \<open>What a round of the loader writes\<close>

lemma Season_save_Inl: "Season_save F s d = (Inl e, d1) \<Longrightarrow> d1 = d"
  by (auto simp: Season_save_def Let_def split: if_splits)

lemma Season_save_Inr:
  "Season_save F s d = (Inr i, d1) \<Longrightarrow> d1 = d\<lparr>seasons := seasons d @ [(i, s)]\<rparr>"
  by (auto simp: Season_save_def Let_def split: if_splits)

lemma Season_saveFavorite_Inl: "Season_saveFavorite F pid i d = (Inl e, d1) \<Longrightarrow> d1 = d"
  by (auto simp: Season_saveFavorite_def split: if_splits)

lemma Season_saveFavorite_Inr:
  "Season_saveFavorite F pid i d = (Inr u, d1) \<Longrightarrow>
     d1 = d\<lparr>season_watch_status := insert_ignore pid i (season_watch_status d)\<rparr>"
  by (auto simp: Season_saveFavorite_def split: if_splits)

lemma saveEpisode_Inr:
  "episodesDb_saveEpisode F ep d = (Inr i, d1) \<Longrightarrow> d1 = d\<lparr>episodes := episodes d @ [(i, ep)]\<rparr>"
  by (auto simp: episodesDb_saveEpisode_def Let_def split: if_splits)

lemma saveFavorite_Inr:
  "episodesDb_saveFavorite F pid i d = (Inr u, d1) \<Longrightarrow>
     d1 = d\<lparr>episode_watch_status := insert_ignore pid i (episode_watch_status d)\<rparr>"
  by (auto simp: episodesDb_saveFavorite_def split: if_splits)

lemma loadSeasons_Cons_cases:
  assumes "loadSeasons F P t showId pid (rs # rss) d = (r, d')"
  obtains (provider) e where "getSeasonDetails P t (ts_season_number rs) = Inl e"
      "r = Inl e" "d' = d"
  | (save) e where "Season_save F (Season_of rs showId) d = (Inl e, d')" "r = Inl e"
  | (favorite) i d1 e where "Season_save F (Season_of rs showId) d = (Inr i, d1)"
      "Season_saveFavorite F pid i d1 = (Inl e, d')" "r = Inl e"
  | (episodes) eps i d1 d2 e where "Season_save F (Season_of rs showId) d = (Inr i, d1)"
      "Season_saveFavorite F pid i d1 = (Inr (), d2)"
      "saveEpisodes F showId i pid eps d2 = (Inl e, d')" "r = Inl e"
  | (continues) eps i d1 d2 d3 where "getSeasonDetails P t (ts_season_number rs) = Inr eps"
      "Season_save F (Season_of rs showId) d = (Inr i, d1)"
      "Season_saveFavorite F pid i d1 = (Inr (), d2)"
      "saveEpisodes F showId i pid eps d2 = (Inr (), d3)"
      "loadSeasons F P t showId pid rss d3 = (r, d')"
  using assms by (auto split: sum.splits prod.splits)

lemma saveEpisodes_Cons_cases:
  assumes "saveEpisodes F showId sid pid (re # res) d = (r, d')"
  obtains (save) e where "episodesDb_saveEpisode F (createEpisode re showId sid) d = (Inl e, d')"
      "r = Inl e"
  | (favorite) i d1 e where "episodesDb_saveEpisode F (createEpisode re showId sid) d = (Inr i, d1)"
      "episodesDb_saveFavorite F pid i d1 = (Inl e, d')" "r = Inl e"
  | (continues) i d1 d2 where "episodesDb_saveEpisode F (createEpisode re showId sid) d = (Inr i, d1)"
      "episodesDb_saveFavorite F pid i d1 = (Inr (), d2)"
      "saveEpisodes F showId sid pid res d2 = (r, d')"
  using assms by (auto split: sum.splits prod.splits)

subsection \<open>Where a load stops\<close>






















subsection \<open>What a load persists\<close>

lemma insert_ignore_delta:
  "\<exists>ws. insert_ignore pid cid rows = rows @ ws \<and>
        (\<forall>r \<in> set ws. ws_profile_id r = pid \<and> ws_content_id r = cid)"
  by (simp add: insert_ignore_def)

lemma saveEpisodes_frame:
  "saveEpisodes F showId sid pid res d = (r, d') \<Longrightarrow>
     seasons d' = seasons d \<and> season_watch_status d' = season_watch_status d"
proof (induction res arbitrary: d)
  case Nil
  then show ?case by simp
next
  case (Cons re res)
  from Cons.prems show ?case
  proof (cases rule: saveEpisodes_Cons_cases)
    case (save e)
    then show ?thesis
      by (auto simp: episodesDb_saveEpisode_def Let_def split: if_splits)
  next
    case (favorite i d1 e)
    then show ?thesis
      by (auto simp: episodesDb_saveEpisode_def episodesDb_saveFavorite_def Let_def
          split: if_splits)
  next
    case (continues i d1 d2)
    from Cons.IH[OF continues(3)] saveEpisode_Inr[OF continues(1)] saveFavorite_Inr[OF continues(2)]
    show ?thesis by simp
  qed
qed

lemma loadSeasons_delta:
  "loadSeasons F P t showId pid rss d = (r, d') \<Longrightarrow>
     \<exists>ss ws. seasons d' = seasons d @ ss \<and>
        set (map snd ss) \<subseteq> (\<lambda>rs. Season_of rs showId) ` set rss \<and>
        season_watch_status d' = season_watch_status d @ ws \<and>
        (\<forall>r \<in> set ws. ws_profile_id r = pid \<and> ws_content_id r \<in> fst ` set ss)"
proof (induction rss arbitrary: d)
  case Nil
  then show ?case by simp
next
  case (Cons rs rss)
  let ?s = "Season_of rs showId"
  from Cons.prems show ?case
  proof (cases rule: loadSeasons_Cons_cases)
    case (provider e)
    then show ?thesis by simp
  next
    case (save e)
    from Season_save_Inl[OF save(1)] show ?thesis by simp
  next
    case (favorite i d1 e)
    from Season_save_Inr[OF favorite(1)] Season_saveFavorite_Inl[OF favorite(2)]
    have "seasons d' = seasons d @ [(i, ?s)]" "season_watch_status d' = season_watch_status d @ []"
      by simp_all
    then show ?thesis by (intro exI[of _ "[(i, ?s)]"] exI[of _ "[]"]) simp
  next
    case (episodes eps i d1 d2 e)
    from insert_ignore_delta[of pid i "season_watch_status d"] obtain w1 where
      w1: "insert_ignore pid i (season_watch_status d) = season_watch_status d @ w1"
        "\<forall>r \<in> set w1. ws_profile_id r = pid \<and> ws_content_id r = i" by blast
    from Season_save_Inr[OF episodes(1)] Season_saveFavorite_Inr[OF episodes(2)]
      saveEpisodes_frame[OF episodes(3)] w1(1)
    have "seasons d' = seasons d @ [(i, ?s)]" "season_watch_status d' = season_watch_status d @ w1"
      by simp_all
    then show ?thesis using w1(2) by (intro exI[of _ "[(i, ?s)]"] exI[of _ w1]) simp
  next
    case (continues eps i d1 d2 d3)
    from insert_ignore_delta[of pid i "season_watch_status d"] obtain w1 where
      w1: "insert_ignore pid i (season_watch_status d) = season_watch_status d @ w1"
        "\<forall>r \<in> set w1. ws_profile_id r = pid \<and> ws_content_id r = i" by blast
    from Season_save_Inr[OF continues(2)] Season_saveFavorite_Inr[OF continues(3)]
      saveEpisodes_frame[OF continues(4)] w1(1)
    have d3: "seasons d3 = seasons d @ [(i, ?s)]"
      "season_watch_status d3 = season_watch_status d @ w1"
      by simp_all
    from Cons.IH[OF continues(5)] obtain ss ws where
      ih: "seasons d' = seasons d3 @ ss"
        "set (map snd ss) \<subseteq> (\<lambda>rs. Season_of rs showId) ` set rss"
        "season_watch_status d' = season_watch_status d3 @ ws"
        "\<forall>r \<in> set ws. ws_profile_id r = pid \<and> ws_content_id r \<in> fst ` set ss" by blast
    show ?thesis
    proof (intro exI[of _ "(i, ?s) # ss"] exI[of _ "w1 @ ws"] conjI)
      show "seasons d' = seasons d @ (i, ?s) # ss" using ih(1) d3(1) by simp
      show "set (map snd ((i, ?s) # ss)) \<subseteq> (\<lambda>rs. Season_of rs showId) ` set (rs # rss)"
        using ih(2) by auto
      show "season_watch_status d' = season_watch_status d @ w1 @ ws" using ih(3) d3(2) by simp
      show "\<forall>r \<in> set (w1 @ ws). ws_profile_id r = pid \<and> ws_content_id r \<in> fst ` set ((i, ?s) # ss)"
        using ih(4) w1(2) by auto
    qed
  qed
qed


lemma saveEpisodes_success:
  assumes ins: "\<And>n. \<not> F (OpInsertEpisode n)" "\<And>n. \<not> F (OpInsertEpisodeFavorite n)"
  shows "\<exists>d' es. saveEpisodes F showId sid pid res d = (Inr (), d') \<and>
           episodes d' = episodes d @ es \<and>
           map snd es = map (\<lambda>re. createEpisode re showId sid) res \<and>
           (\<forall>(i, e) \<in> set es. list_ex (row_matches pid i) (episode_watch_status d'))"
proof (induction res arbitrary: d)
  case Nil
  show ?case by simp
next
  case (Cons re res)
  let ?ep = "createEpisode re showId sid"
  let ?i = "insertId (map fst (episodes d))"
  let ?d1 = "d\<lparr>episodes := episodes d @ [(?i, ?ep)]\<rparr>"
  let ?d2 = "?d1\<lparr>episode_watch_status := insert_ignore pid ?i (episode_watch_status ?d1)\<rparr>"
  have s1: "episodesDb_saveEpisode F ?ep d = (Inr ?i, ?d1)"
    using ins(1) by (simp add: episodesDb_saveEpisode_def createEpisode_def Let_def)
  have s2: "episodesDb_saveFavorite F pid ?i ?d1 = (Inr (), ?d2)"
    using ins(2) by (simp add: episodesDb_saveFavorite_def)
  from Cons.IH[of ?d2] obtain d' es where
    ih: "saveEpisodes F showId sid pid res ?d2 = (Inr (), d')"
      "episodes d' = episodes ?d2 @ es"
      "map snd es = map (\<lambda>re. createEpisode re showId sid) res"
      "\<forall>(i, e) \<in> set es. list_ex (row_matches pid i) (episode_watch_status d')" by blast
  have run: "saveEpisodes F showId sid pid (re # res) d = (Inr (), d')"
    by (simp only: saveEpisodes.simps s1 s2 ih(1) prod.case sum.case)
  have "prefix (episode_watch_status ?d2) (episode_watch_status d')"
    using saveEpisodes_extends[OF ih(1)] by (simp add: store_extends_def)
  moreover have "list_ex (row_matches pid ?i) (episode_watch_status ?d2)"
    by (simp add: insert_ignore_favorited)
  ultimately have fav: "list_ex (row_matches pid ?i) (episode_watch_status d')"
    by (rule list_ex_prefix)
  show ?case
  proof (intro exI[of _ d'] exI[of _ "(?i, ?ep) # es"] conjI)
    show "saveEpisodes F showId sid pid (re # res) d = (Inr (), d')" by (rule run)
    show "episodes d' = episodes d @ (?i, ?ep) # es" using ih(2) by simp
    show "map snd ((?i, ?ep) # es) = map (\<lambda>re. createEpisode re showId sid) (re # res)"
      using ih(3) by simp
    show "\<forall>(i, e) \<in> set ((?i, ?ep) # es). list_ex (row_matches pid i) (episode_watch_status d')"
      using ih(4) fav by simp
  qed
qed

lemma loadSeasons_success:
  assumes ins: "\<And>n. \<not> F (OpInsertSeason n)" "\<And>n. \<not> F (OpInsertSeasonFavorite n)"
      "\<And>n. \<not> F (OpInsertEpisode n)" "\<And>n. \<not> F (OpInsertEpisodeFavorite n)"
    and prov: "\<forall>rs \<in> set rss. getSeasonDetails P t (ts_season_number rs)
                 = Inr (details (ts_season_number rs))"
  shows "\<exists>d' ss es. loadSeasons F P t showId pid rss d = (Inr (), d') \<and>
           seasons d' = seasons d @ ss \<and>
           map snd ss = map (\<lambda>rs. Season_of rs showId) rss \<and>
           episodes d' = episodes d @ es \<and>
           map snd es = concat (map (\<lambda>((sid, s), rs).
                           map (\<lambda>re. createEpisode re showId sid) (details (ts_season_number rs)))
                         (zip ss rss)) \<and>
           (\<forall>(i, s) \<in> set ss. list_ex (row_matches pid i) (season_watch_status d')) \<and>
           (\<forall>(i, e) \<in> set es. list_ex (row_matches pid i) (episode_watch_status d'))"
  using prov
proof (induction rss arbitrary: d)
  case Nil
  show ?case by simp
next
  case (Cons rs rss)
  let ?s = "Season_of rs showId"
  let ?i = "insertId (map fst (seasons d))"
  let ?eps = "details (ts_season_number rs)"
  let ?d1 = "d\<lparr>seasons := seasons d @ [(?i, ?s)]\<rparr>"
  let ?d2 = "?d1\<lparr>season_watch_status := insert_ignore pid ?i (season_watch_status ?d1)\<rparr>"
  have p: "getSeasonDetails P t (ts_season_number rs) = Inr ?eps"
    using Cons.prems by simp
  have s1: "Season_save F ?s d = (Inr ?i, ?d1)"
    using ins(1) by (simp add: Season_save_def Let_def)
  have s2: "Season_saveFavorite F pid ?i ?d1 = (Inr (), ?d2)"
    using ins(2) by (simp add: Season_saveFavorite_def)
  from saveEpisodes_success[OF ins(3) ins(4), of showId ?i pid ?eps ?d2] obtain d3 es1 where
    e: "saveEpisodes F showId ?i pid ?eps ?d2 = (Inr (), d3)"
      "episodes d3 = episodes ?d2 @ es1"
      "map snd es1 = map (\<lambda>re. createEpisode re showId ?i) ?eps"
      "\<forall>(i, e) \<in> set es1. list_ex (row_matches pid i) (episode_watch_status d3)" by blast
  note f3 = saveEpisodes_frame[OF e(1)]
  from Cons.prems have "\<forall>rs \<in> set rss. getSeasonDetails P t (ts_season_number rs)
                 = Inr (details (ts_season_number rs))" by simp
  from Cons.IH[OF this, of d3] obtain d' ss es where
    ih: "loadSeasons F P t showId pid rss d3 = (Inr (), d')"
      "seasons d' = seasons d3 @ ss"
      "map snd ss = map (\<lambda>rs. Season_of rs showId) rss"
      "episodes d' = episodes d3 @ es"
      "map snd es = concat (map (\<lambda>((sid, s), rs).
                           map (\<lambda>re. createEpisode re showId sid) (details (ts_season_number rs)))
                         (zip ss rss))"
      "\<forall>(i, s) \<in> set ss. list_ex (row_matches pid i) (season_watch_status d')"
      "\<forall>(i, e) \<in> set es. list_ex (row_matches pid i) (episode_watch_status d')" by blast
  have run: "loadSeasons F P t showId pid (rs # rss) d = (Inr (), d')"
    by (simp only: loadSeasons.simps p s1 s2 e(1) ih(1) prod.case sum.case)
  note ext = loadSeasons_extends[OF ih(1)]
  have "list_ex (row_matches pid ?i) (season_watch_status d3)"
    using f3 by (simp add: insert_ignore_favorited)
  moreover have "prefix (season_watch_status d3) (season_watch_status d')"
    using ext by (simp add: store_extends_def)
  ultimately have fav_s: "list_ex (row_matches pid ?i) (season_watch_status d')"
    using list_ex_prefix by blast
  have pre_e: "prefix (episode_watch_status d3) (episode_watch_status d')"
    using ext by (simp add: store_extends_def)
  have fav_e: "\<forall>(i, e) \<in> set es1. list_ex (row_matches pid i) (episode_watch_status d')"
    using e(4) list_ex_prefix[OF pre_e] by blast
  show ?case
  proof (intro exI[of _ d'] exI[of _ "(?i, ?s) # ss"] exI[of _ "es1 @ es"] conjI)
    show "loadSeasons F P t showId pid (rs # rss) d = (Inr (), d')" by (rule run)
    show "seasons d' = seasons d @ (?i, ?s) # ss" using ih(2) f3 by simp
    show "map snd ((?i, ?s) # ss) = map (\<lambda>rs. Season_of rs showId) (rs # rss)"
      using ih(3) by simp
    show "episodes d' = episodes d @ es1 @ es" using ih(4) e(2) by simp
    show "map snd (es1 @ es) = concat (map (\<lambda>((sid, s), rs).
                           map (\<lambda>re. createEpisode re showId sid) (details (ts_season_number rs)))
                         (zip ((?i, ?s) # ss) (rs # rss)))"
      using ih(5) e(3) by simp
    show "\<forall>(i, s) \<in> set ((?i, ?s) # ss). list_ex (row_matches pid i) (season_watch_status d')"
      using ih(6) fav_s by simp
    show "\<forall>(i, e) \<in> set (es1 @ es). list_ex (row_matches pid i) (episode_watch_status d')"
      using ih(7) fav_e by auto
  qed
qed


lemma notifyShowDataLoaded_db: "w_db (notifyShowDataLoaded F M pid showId w) = w_db w"
  by (simp add: notifyShowDataLoaded_def split: option.splits sum.splits)

lemma fetchSeasonsAndEpisodes_db:
  "w_db (snd (fetchSeasonsAndEpisodes F P M show showId pid w)) =
     snd (loadSeasons F P (tsh_id show) showId pid
            (filter (\<lambda>season. ts_season_number season > 0) (tsh_seasons show)) (w_db w))"
  by (simp add: fetchSeasonsAndEpisodes_def notifyShowDataLoaded_db
      split: prod.splits sum.splits)

text \<open>
  Claim C7. Whatever fails, the season rows a load appends all have a season number
  above zero, and the season associations it appends are those of the initiating
  profile for these rows: a season numbered zero or less is neither persisted nor
  favorited. When no insert fails and the provider answers for every season numbered
  above zero, each of these seasons is persisted, in the provider's order; the episodes
  of each are persisted under the id of its row, in the provider's order; and every
  one of these rows has an association of the initiating profile.
\<close>

theorem loader_persists_numbered_seasons:
  "(\<exists>ss ws.
      seasons (w_db (snd (fetchSeasonsAndEpisodes F P M show showId profileId w)))
        = seasons (w_db w) @ ss \<and>
      (\<forall>(i, s) \<in> set ss. 0 < s_season_number s) \<and>
      season_watch_status (w_db (snd (fetchSeasonsAndEpisodes F P M show showId profileId w)))
        = season_watch_status (w_db w) @ ws \<and>
      (\<forall>r \<in> set ws. ws_profile_id r = profileId \<and> ws_content_id r \<in> fst ` set ss))
   \<and> ((\<forall>n. \<not> F (OpInsertSeason n) \<and> \<not> F (OpInsertSeasonFavorite n) \<and>
             \<not> F (OpInsertEpisode n) \<and> \<not> F (OpInsertEpisodeFavorite n)) \<and>
        (\<forall>rs \<in> set (filter (\<lambda>season. ts_season_number season > 0) (tsh_seasons show)).
             getSeasonDetails P (tsh_id show) (ts_season_number rs)
               = Inr (details (ts_season_number rs)))
        \<longrightarrow>
        (\<exists>ss es.
           seasons (w_db (snd (fetchSeasonsAndEpisodes F P M show showId profileId w)))
             = seasons (w_db w) @ ss \<and>
           map snd ss = map (\<lambda>rs. Season_of rs showId)
                          (filter (\<lambda>season. ts_season_number season > 0) (tsh_seasons show)) \<and>
           episodes (w_db (snd (fetchSeasonsAndEpisodes F P M show showId profileId w)))
             = episodes (w_db w) @ es \<and>
           map snd es = concat (map (\<lambda>((sid, s), rs).
                           map (\<lambda>re. createEpisode re showId sid) (details (ts_season_number rs)))
                         (zip ss (filter (\<lambda>season. ts_season_number season > 0)
                                    (tsh_seasons show)))) \<and>
           (\<forall>(i, s) \<in> set ss. list_ex (row_matches profileId i)
              (season_watch_status
                 (w_db (snd (fetchSeasonsAndEpisodes F P M show showId profileId w))))) \<and>
           (\<forall>(i, e) \<in> set es. list_ex (row_matches profileId i)
              (episode_watch_status
                 (w_db (snd (fetchSeasonsAndEpisodes F P M show showId profileId w)))))))"
proof (intro conjI impI)
  let ?valid = "filter (\<lambda>season. ts_season_number season > 0) (tsh_seasons show)"
  let ?run = "loadSeasons F P (tsh_id show) showId profileId ?valid (w_db w)"
  let ?d' = "w_db (snd (fetchSeasonsAndEpisodes F P M show showId profileId w))"
  have d': "?d' = snd ?run" by (rule fetchSeasonsAndEpisodes_db)
  have "?run = (fst ?run, snd ?run)" by simp
  from loadSeasons_delta[OF this] obtain ss ws where
    delta: "seasons (snd ?run) = seasons (w_db w) @ ss"
      "set (map snd ss) \<subseteq> (\<lambda>rs. Season_of rs showId) ` set ?valid"
      "season_watch_status (snd ?run) = season_watch_status (w_db w) @ ws"
      "\<forall>r \<in> set ws. ws_profile_id r = profileId \<and> ws_content_id r \<in> fst ` set ss" by blast
  have numbered: "\<forall>(i, s) \<in> set ss. 0 < s_season_number s"
  proof (clarify)
    fix i s assume "(i, s) \<in> set ss"
    then have "s \<in> set (map snd ss)" by force
    with delta(2) obtain rs where "rs \<in> set ?valid" "s = Season_of rs showId" by blast
    then show "0 < s_season_number s" by (simp add: Season_of_def)
  qed
  show "\<exists>ss ws. seasons ?d' = seasons (w_db w) @ ss \<and>
      (\<forall>(i, s) \<in> set ss. 0 < s_season_number s) \<and>
      season_watch_status ?d' = season_watch_status (w_db w) @ ws \<and>
      (\<forall>r \<in> set ws. ws_profile_id r = profileId \<and> ws_content_id r \<in> fst ` set ss)"
    unfolding d' using delta(1,3,4) numbered by blast
next
  let ?valid = "filter (\<lambda>season. ts_season_number season > 0) (tsh_seasons show)"
  let ?d' = "w_db (snd (fetchSeasonsAndEpisodes F P M show showId profileId w))"
  assume h: "(\<forall>n. \<not> F (OpInsertSeason n) \<and> \<not> F (OpInsertSeasonFavorite n) \<and>
             \<not> F (OpInsertEpisode n) \<and> \<not> F (OpInsertEpisodeFavorite n)) \<and>
        (\<forall>rs \<in> set ?valid. getSeasonDetails P (tsh_id show) (ts_season_number rs)
               = Inr (details (ts_season_number rs)))"
  then have ins: "\<And>n. \<not> F (OpInsertSeason n)" "\<And>n. \<not> F (OpInsertSeasonFavorite n)"
      "\<And>n. \<not> F (OpInsertEpisode n)" "\<And>n. \<not> F (OpInsertEpisodeFavorite n)"
    and prov: "\<forall>rs \<in> set ?valid. getSeasonDetails P (tsh_id show) (ts_season_number rs)
               = Inr (details (ts_season_number rs))" by blast+
  from loadSeasons_success[where F = F and details = details, OF ins prov,
      of showId profileId "w_db w"]
  obtain d1 ss es where
    ok: "loadSeasons F P (tsh_id show) showId profileId ?valid (w_db w) = (Inr (), d1)"
      "seasons d1 = seasons (w_db w) @ ss"
      "map snd ss = map (\<lambda>rs. Season_of rs showId) ?valid"
      "episodes d1 = episodes (w_db w) @ es"
      "map snd es = concat (map (\<lambda>((sid, s), rs).
                           map (\<lambda>re. createEpisode re showId sid) (details (ts_season_number rs)))
                         (zip ss ?valid))"
      "\<forall>(i, s) \<in> set ss. list_ex (row_matches profileId i) (season_watch_status d1)"
      "\<forall>(i, e) \<in> set es. list_ex (row_matches profileId i) (episode_watch_status d1)" by blast
  have d': "?d' = d1" by (simp add: fetchSeasonsAndEpisodes_db ok(1))
  show "\<exists>ss es. seasons ?d' = seasons (w_db w) @ ss \<and>
           map snd ss = map (\<lambda>rs. Season_of rs showId) ?valid \<and>
           episodes ?d' = episodes (w_db w) @ es \<and>
           map snd es = concat (map (\<lambda>((sid, s), rs).
                           map (\<lambda>re. createEpisode re showId sid) (details (ts_season_number rs)))
                         (zip ss ?valid)) \<and>
           (\<forall>(i, s) \<in> set ss. list_ex (row_matches profileId i) (season_watch_status ?d')) \<and>
           (\<forall>(i, e) \<in> set es. list_ex (row_matches profileId i) (episode_watch_status ?d'))"
    unfolding d' using ok(2-7) by blast
qed


text \<open>Show 1399: the specials are skipped, seasons 1 and 2 and their three episodes are
  persisted in order.\<close>

lemma example_provider_answers:
  "\<forall>rs \<in> set (filter (\<lambda>season. ts_season_number season > 0) (tsh_seasons example_show)).
     getSeasonDetails example_tmdb (tsh_id example_show) (ts_season_number rs)
       = Inr (example_details (ts_season_number rs))"
  by (simp add: example_show_def example_tmdb_season_def example_tmdb_def)

theorem loader_persists_numbered_seasons_witness:
  "map (s_tmdb_id \<circ> snd) (seasons (w_db (snd (fetchSeasonsAndEpisodes no_faults example_tmdb
      (spec_show_model no_faults) example_show 1 ''1'' fresh_world)))) = [3624, 3625]
   \<and> map (e_tmdb_id \<circ> snd) (episodes (w_db (snd (fetchSeasonsAndEpisodes no_faults
      example_tmdb (spec_show_model no_faults) example_show 1 ''1'' fresh_world))))
      = [63056, 63057, 63066]"
proof -
  let ?d' = "w_db (snd (fetchSeasonsAndEpisodes no_faults example_tmdb
      (spec_show_model no_faults) example_show 1 ''1'' fresh_world))"
  have ins: "\<forall>n. \<not> no_faults (OpInsertSeason n) \<and> \<not> no_faults (OpInsertSeasonFavorite n) \<and>
             \<not> no_faults (OpInsertEpisode n) \<and> \<not> no_faults (OpInsertEpisodeFavorite n)"
    by (simp add: no_faults_def)
  have valid: "filter (\<lambda>season. ts_season_number season > 0) (tsh_seasons example_show) =
     [example_tmdb_season 3624 1, example_tmdb_season 3625 2]"
    by (simp add: example_show_def example_tmdb_season_def)
  have empty: "seasons (w_db fresh_world) = []" "episodes (w_db fresh_world) = []"
    by (simp_all add: fresh_world_def fresh_db_def)
  from loader_persists_numbered_seasons[of no_faults example_tmdb "spec_show_model no_faults"
      example_show 1 "''1''" fresh_world example_details] ins example_provider_answers
  obtain ss es where
    r: "seasons ?d' = seasons (w_db fresh_world) @ ss"
      "map snd ss = map (\<lambda>rs. Season_of rs 1)
         (filter (\<lambda>season. ts_season_number season > 0) (tsh_seasons example_show))"
      "episodes ?d' = episodes (w_db fresh_world) @ es"
      "map snd es = concat (map (\<lambda>((sid, s), rs).
                           map (\<lambda>re. createEpisode re 1 sid) (example_details (ts_season_number rs)))
                         (zip ss (filter (\<lambda>season. ts_season_number season > 0)
                                    (tsh_seasons example_show))))"
    by blast
  from r(2) have "length ss = 2" unfolding valid by (metis length_map length_Cons list.size(3) numeral_2_eq_2)
  then obtain x y where ss: "ss = [x, y]"
    by (metis (no_types) length_0_conv length_Suc_conv numeral_2_eq_2)
  have a: "map (s_tmdb_id \<circ> snd) (seasons ?d') = [3624, 3625]"
  proof -
    have "map (s_tmdb_id \<circ> snd) (seasons ?d') = map s_tmdb_id (map snd ss)"
      unfolding r(1) empty by simp
    also have "\<dots> = [3624, 3625]"
      unfolding r(2) valid by (simp add: Season_of_def example_tmdb_season_def)
    finally show ?thesis .
  qed
  have b: "map (e_tmdb_id \<circ> snd) (episodes ?d') = [63056, 63057, 63066]"
  proof -
    have "map (e_tmdb_id \<circ> snd) (episodes ?d') = map e_tmdb_id (map snd es)"
      unfolding r(3) empty by simp
    also have "\<dots> = [63056, 63057, 63066]"
      unfolding r(4) valid ss
      by (simp add: createEpisode_def example_details_def example_tmdb_episode_def
          example_tmdb_season_def split: prod.splits)
    finally show ?thesis .
  qed
  from a b show ?thesis by simp
qed

subsection \<open>The completion notice\<close>

lemma find_account:
  "(\<exists>s \<in> set sockets. sock_accountId s = JNum account) \<Longrightarrow>
     \<exists>s. find (\<lambda>s. sock_accountId s = JNum account) sockets = Some s"
  by (induction sockets) auto

lemma find_no_account:
  "(\<forall>s \<in> set sockets. sock_accountId s \<noteq> JNum account) \<Longrightarrow>
     find (\<lambda>s. sock_accountId s = JNum account) sockets = None"
  by (induction sockets) auto

text \<open>
  Claim C9. When a load completes and the reads of the owning account and of the show
  succeed: if a connected session has the account of the initiating profile, exactly
  one \<open>updateShowFavorite\<close> event is emitted, to the first such session, with the
  message and the show as read after the load, and nothing else changes; if the socket
  server is not initialised or no session has that account, nothing is emitted and
  nothing is kept for later.
\<close>

theorem completion_notifies_connected_account:
  assumes loaded: "loadSeasons F P (tsh_id show) showId profileId
                     (filter (\<lambda>season. ts_season_number season > 0) (tsh_seasons show)) (w_db w)
                   = (Inr (), d)"
    and lookup: "\<not> F OpSelectAccountId"
    and owner: "map_of (profiles d) profileId = Some account"
    and view: "Show_getShowForProfile M profileId showId d = Inr loadedShow"
  shows "(\<forall>sockets. w_io w = Some sockets \<and> (\<exists>s \<in> set sockets. sock_accountId s = JNum account)
           \<longrightarrow> (\<exists>s. find (\<lambda>s. sock_accountId s = JNum account) sockets = Some s \<and>
                  snd (fetchSeasonsAndEpisodes F P M show showId profileId w) =
                    w\<lparr>w_db := d,
                      w_emitted := w_emitted w @
                        [\<lparr>ev_socket = sock_id s, ev_name = ''updateShowFavorite'',
                          ev_message = ''Show data has been fully loaded'',
                          ev_show = loadedShow\<rparr>]\<rparr>))
       \<and> (w_io w = None \<or>
            (\<exists>sockets. w_io w = Some sockets \<and> (\<forall>s \<in> set sockets. sock_accountId s \<noteq> JNum account))
           \<longrightarrow> snd (fetchSeasonsAndEpisodes F P M show showId profileId w) = w\<lparr>w_db := d\<rparr>)"
proof (intro conjI allI impI)
  have run: "snd (fetchSeasonsAndEpisodes F P M show showId profileId w) =
      notifyShowDataLoaded F M profileId showId (w\<lparr>w_db := d\<rparr>)"
    by (simp add: fetchSeasonsAndEpisodes_def loaded)
  have acct: "Account_findAccountIdByProfileId F profileId d = Inr (Some account)"
    using lookup owner by (simp add: Account_findAccountIdByProfileId_def)
  have same: "(\<lambda>s. same_account (sock_accountId s) (Some account)) =
      (\<lambda>s. sock_accountId s = JNum account)"
    by (simp add: same_account_def)
  {
    fix sockets
    assume h: "w_io w = Some sockets \<and> (\<exists>s \<in> set sockets. sock_accountId s = JNum account)"
    then obtain s where s: "find (\<lambda>s. sock_accountId s = JNum account) sockets = Some s"
      using find_account by blast
    have "notifyShowDataLoaded F M profileId showId (w\<lparr>w_db := d\<rparr>) =
        w\<lparr>w_db := d,
          w_emitted := w_emitted w @
            [\<lparr>ev_socket = sock_id s, ev_name = ''updateShowFavorite'',
              ev_message = ''Show data has been fully loaded'', ev_show = loadedShow\<rparr>]\<rparr>"
      using h by (simp add: notifyShowDataLoaded_def acct view same s)
    with s show "\<exists>s. find (\<lambda>s. sock_accountId s = JNum account) sockets = Some s \<and>
                  snd (fetchSeasonsAndEpisodes F P M show showId profileId w) =
                    w\<lparr>w_db := d,
                      w_emitted := w_emitted w @
                        [\<lparr>ev_socket = sock_id s, ev_name = ''updateShowFavorite'',
                          ev_message = ''Show data has been fully loaded'',
                          ev_show = loadedShow\<rparr>]\<rparr>"
      unfolding run by blast
  }
  {
    assume "w_io w = None \<or>
            (\<exists>sockets. w_io w = Some sockets \<and> (\<forall>s \<in> set sockets. sock_accountId s \<noteq> JNum account))"
    then show "snd (fetchSeasonsAndEpisodes F P M show showId profileId w) = w\<lparr>w_db := d\<rparr>"
      unfolding run
    proof
      assume "w_io w = None"
      then show "notifyShowDataLoaded F M profileId showId (w\<lparr>w_db := d\<rparr>) = w\<lparr>w_db := d\<rparr>"
        by (simp add: notifyShowDataLoaded_def)
    next
      assume "\<exists>sockets. w_io w = Some sockets \<and>
                (\<forall>s \<in> set sockets. sock_accountId s \<noteq> JNum account)"
      then obtain sockets where io: "w_io w = Some sockets"
        and none: "\<forall>s \<in> set sockets. sock_accountId s \<noteq> JNum account" by blast
      show "notifyShowDataLoaded F M profileId showId (w\<lparr>w_db := d\<rparr>) = w\<lparr>w_db := d\<rparr>"
        by (simp add: notifyShowDataLoaded_def acct view same io find_no_account[OF none])
    qed
  }
qed


text \<open>Account 7 has two sessions: the first of them, session 2, gets the one event.
  Without a socket server nothing is emitted.\<close>

theorem completion_notifies_connected_account_witness:
  "w_emitted (snd (fetchSeasonsAndEpisodes no_faults example_tmdb (spec_show_model no_faults)
      example_show 1 ''1'' fresh_world))
     = [\<lparr>ev_socket = 2, ev_name = ''updateShowFavorite'',
         ev_message = ''Show data has been fully loaded'',
         ev_show = Some (ShowView 1 NOT_WATCHED)\<rparr>]
   \<and> w_emitted (snd (fetchSeasonsAndEpisodes no_faults example_tmdb (spec_show_model no_faults)
      example_show 1 ''1'' (fresh_world\<lparr>w_io := None\<rparr>))) = []"
proof -
  let ?M = "spec_show_model no_faults"
  let ?valid = "filter (\<lambda>season. ts_season_number season > 0) (tsh_seasons example_show)"
  have ins: "\<And>n. \<not> no_faults (OpInsertSeason n)" "\<And>n. \<not> no_faults (OpInsertSeasonFavorite n)"
      "\<And>n. \<not> no_faults (OpInsertEpisode n)" "\<And>n. \<not> no_faults (OpInsertEpisodeFavorite n)"
    and lookup: "\<not> no_faults OpSelectAccountId"
    by (simp_all add: no_faults_def)
  from loadSeasons_success[where F = no_faults and details = example_details, OF ins
      example_provider_answers, of 1 "''1''" fresh_db]
  obtain d where loaded: "loadSeasons no_faults example_tmdb (tsh_id example_show) 1 ''1''
      ?valid fresh_db = (Inr (), d)" by blast
  from loadSeasons_extends[OF loaded]
  have frame: "profiles d = profiles fresh_db" "show_watch_status d = show_watch_status fresh_db"
    by (simp_all add: store_extends_def)
  have owner: "map_of (profiles d) ''1'' = Some 7"
    unfolding frame by (simp add: fresh_db_def)
  have view: "Show_getShowForProfile ?M ''1'' 1 d = Inr (Some (ShowView 1 NOT_WATCHED))"
    unfolding spec_show_model_def spec_getShowForProfile_def
    by (simp add: frame no_faults_def fresh_db_def example_row_def row_matches_def)
  have db: "w_db fresh_world = fresh_db" "w_db (fresh_world\<lparr>w_io := None\<rparr>) = fresh_db"
    by (simp_all add: fresh_world_def)
  have io: "w_io fresh_world = Some [\<lparr>sock_id = 1, sock_accountId = JNum 8\<rparr>,
                   \<lparr>sock_id = 2, sock_accountId = JNum 7\<rparr>,
                   \<lparr>sock_id = 3, sock_accountId = JNum 7\<rparr>]"
    by (simp add: fresh_world_def example_world_def)
  have first: "find (\<lambda>s. sock_accountId s = JNum 7) [\<lparr>sock_id = 1, sock_accountId = JNum 8\<rparr>,
                   \<lparr>sock_id = 2, sock_accountId = JNum 7\<rparr>,
                   \<lparr>sock_id = 3, sock_accountId = JNum 7\<rparr>]
      = Some \<lparr>sock_id = 2, sock_accountId = JNum 7\<rparr>" by simp
  note thm1 = completion_notifies_connected_account[where w = fresh_world and M = ?M,
      unfolded db, OF loaded lookup owner view]
  note thm2 = completion_notifies_connected_account[where w = "fresh_world\<lparr>w_io := None\<rparr>"
      and M = ?M, unfolded db, OF loaded lookup owner view]
  from thm1 io first
  have a: "snd (fetchSeasonsAndEpisodes no_faults example_tmdb ?M example_show 1 ''1'' fresh_world)
      = fresh_world\<lparr>w_db := d,
          w_emitted := w_emitted fresh_world @
            [\<lparr>ev_socket = sock_id \<lparr>sock_id = 2, sock_accountId = JNum 7\<rparr>,
              ev_name = ''updateShowFavorite'',
              ev_message = ''Show data has been fully loaded'',
              ev_show = Some (ShowView 1 NOT_WATCHED)\<rparr>]\<rparr>"
    by auto
  from thm2
  have b: "snd (fetchSeasonsAndEpisodes no_faults example_tmdb ?M example_show 1 ''1''
      (fresh_world\<lparr>w_io := None\<rparr>)) = fresh_world\<lparr>w_io := None, w_db := d\<rparr>"
    by simp
  show ?thesis
    unfolding a b by (simp add: fresh_world_def example_world_def)
qed

section \<open>Favoriting a known show again\<close>

lemma getOrSet_db: "w_db (snd (getOrSet key producer ttl w)) = w_db w"
  by (simp add: getOrSet_def split: option.splits sum.splits)

lemma getEpisodesForProfile_db: "w_db (snd (getEpisodesForProfile M pid w)) = w_db w"
proof -
  have "w_db (snd (getOrSet (PROFILE_EPISODES pid) (m_episodeData M pid) 300 w)) = w_db w"
    by (rule getOrSet_db)
  then show ?thesis
    by (auto simp: getEpisodesForProfile_def split: prod.splits sum.splits)
qed

lemma favoriteExistingShow_db:
  "w_db (snd (favoriteExistingShow M i pid w)) = snd (Show_saveFavorite M i pid True (w_db w))"
proof -
  obtain r d where s: "Show_saveFavorite M i pid True (w_db w) = (r, d)"
    by (cases "Show_saveFavorite M i pid True (w_db w)")
  let ?w1 = "invalidateProfileCache pid (w\<lparr>w_db := d\<rparr>)"
  have w1: "w_db ?w1 = d" by (simp add: invalidateProfileCache_def invalidatePattern_def)
  have e: "w_db (snd (getEpisodesForProfile M pid ?w1)) = d"
    by (simp add: getEpisodesForProfile_db w1)
  show ?thesis
  proof (cases r)
    case (Inl err)
    then show ?thesis by (simp add: favoriteExistingShow_def s)
  next
    case (Inr u)
    then show ?thesis
      using w1 e
      by (auto simp: favoriteExistingShow_def s Let_def split: sum.splits prod.splits)
  qed
qed

lemma addShowToFavorites_known_db:
  assumes "Show_findByTMDBId M showId (w_db w) = Inr (Some (i, row))"
  shows "w_db (snd (addShowToFavorites F P M pid showId w)) =
           snd (Show_saveFavorite M i pid True (w_db w))"
proof -
  have "w_db (snd (addShowToFavorites F P M pid showId w)) =
      w_db (snd (favoriteExistingShow M i pid w))"
    using assms by (simp add: addShowToFavorites_def split: prod.splits sum.splits)
  then show ?thesis by (simp add: favoriteExistingShow_db)
qed

lemma insert_ignore_distinct:
  assumes "distinct (map assoc_key rows)"
  shows "distinct (map assoc_key (insert_ignore pid cid rows))"
proof (cases "list_ex (row_matches pid cid) rows")
  case True
  then show ?thesis using assms by (simp add: insert_ignore_def)
next
  case False
  then have "(pid, cid) \<notin> set (map assoc_key rows)"
    by (auto simp: list_ex_iff row_matches_def assoc_key_def)
  then show ?thesis using assms False
    by (simp add: insert_ignore_def assoc_key_def)
qed

lemma fold_insert_ignore_distinct:
  "distinct (map assoc_key rows) \<Longrightarrow>
     distinct (map assoc_key (fold (\<lambda>(i, x). insert_ignore pid i) xs rows))"
proof (induction xs arbitrary: rows)
  case Nil
  then show ?case by simp
next
  case (Cons x xs)
  obtain i y where x: "x = (i, y)" by (cases x)
  from Cons.prems have "distinct (map assoc_key (insert_ignore pid i rows))"
    by (rule insert_ignore_distinct)
  from Cons.IH[OF this] show ?case by (simp add: x)
qed

lemma insert_ignore_present:
  "list_ex (row_matches pid cid) rows \<Longrightarrow> insert_ignore pid cid rows = rows"
  by (simp add: insert_ignore_def)

lemma fold_insert_ignore_present:
  "\<forall>(i, x) \<in> set xs. list_ex (row_matches pid i) rows \<Longrightarrow>
     fold (\<lambda>(i, x). insert_ignore pid i) xs rows = rows"
  by (induction xs) (auto simp: insert_ignore_present)

lemma known_no_fault: "spec_findByTMDBId F showId d = Inr r \<Longrightarrow> \<not> F OpShowModel"
  by (auto simp: spec_findByTMDBId_def split: if_splits)

text \<open>
  Claim C6. When the show is already in the store, as it is once a first favorite and
  its load have completed, favoriting it again adds no show, season or episode row;
  association tables without duplicate keys stay without duplicates; and when the
  profile already has its associations for the show, its seasons and its episodes,
  the store does not change at all.
\<close>

theorem refavoriting_adds_no_rows:
  assumes known: "spec_findByTMDBId F showId (w_db w) = Inr (Some (i, row))"
  shows "seasons (w_db (snd (addShowToFavorites F P (spec_show_model F) profileId showId w)))
           = seasons (w_db w)
       \<and> episodes (w_db (snd (addShowToFavorites F P (spec_show_model F) profileId showId w)))
           = episodes (w_db w)
       \<and> shows_table (w_db (snd (addShowToFavorites F P (spec_show_model F) profileId showId w)))
           = shows_table (w_db w)
       \<and> (distinct (map assoc_key (show_watch_status (w_db w))) \<longrightarrow>
            distinct (map assoc_key (show_watch_status
              (w_db (snd (addShowToFavorites F P (spec_show_model F) profileId showId w))))))
       \<and> (distinct (map assoc_key (season_watch_status (w_db w))) \<longrightarrow>
            distinct (map assoc_key (season_watch_status
              (w_db (snd (addShowToFavorites F P (spec_show_model F) profileId showId w))))))
       \<and> (distinct (map assoc_key (episode_watch_status (w_db w))) \<longrightarrow>
            distinct (map assoc_key (episode_watch_status
              (w_db (snd (addShowToFavorites F P (spec_show_model F) profileId showId w))))))
       \<and> (list_ex (row_matches profileId i) (show_watch_status (w_db w)) \<and>
           (\<forall>(j, s) \<in> set (seasons (w_db w)). s_show_id s = i \<longrightarrow>
               list_ex (row_matches profileId j) (season_watch_status (w_db w))) \<and>
           (\<forall>(j, e) \<in> set (episodes (w_db w)). e_show_id e = i \<longrightarrow>
               list_ex (row_matches profileId j) (episode_watch_status (w_db w)))
           \<longrightarrow> w_db (snd (addShowToFavorites F P (spec_show_model F) profileId showId w))
                 = w_db w)"
proof -
  let ?d = "w_db w"
  let ?d' = "w_db (snd (addShowToFavorites F P (spec_show_model F) profileId showId w))"
  let ?ss = "filter (\<lambda>(j, s). s_show_id s = i) (seasons ?d)"
  let ?es = "filter (\<lambda>(j, e). e_show_id e = i) (episodes ?d)"
  have nf: "\<not> F OpShowModel" using known by (rule known_no_fault)
  have "Show_findByTMDBId (spec_show_model F) showId ?d = Inr (Some (i, row))"
    using known by (simp add: spec_show_model_def)
  from addShowToFavorites_known_db[OF this, of F P profileId]
  have "?d' = snd (spec_saveFavorite F i profileId True ?d)"
    by (simp add: spec_show_model_def)
  then have d': "?d' = ?d\<lparr>show_watch_status := insert_ignore profileId i (show_watch_status ?d),
      season_watch_status := fold (\<lambda>(j, s). insert_ignore profileId j) ?ss (season_watch_status ?d),
      episode_watch_status := fold (\<lambda>(j, e). insert_ignore profileId j) ?es
                                (episode_watch_status ?d)\<rparr>"
    using nf by (simp add: spec_saveFavorite_def Let_def)
  have same: "?d' = ?d"
    if h: "list_ex (row_matches profileId i) (show_watch_status ?d) \<and>
           (\<forall>(j, s) \<in> set (seasons ?d). s_show_id s = i \<longrightarrow>
               list_ex (row_matches profileId j) (season_watch_status ?d)) \<and>
           (\<forall>(j, e) \<in> set (episodes ?d). e_show_id e = i \<longrightarrow>
               list_ex (row_matches profileId j) (episode_watch_status ?d))"
  proof -
    from h have a: "insert_ignore profileId i (show_watch_status ?d) = show_watch_status ?d"
      by (simp add: insert_ignore_present)
    from h have "\<forall>(j, s) \<in> set ?ss. list_ex (row_matches profileId j) (season_watch_status ?d)"
      by auto
    then have b: "fold (\<lambda>(j, s). insert_ignore profileId j) ?ss (season_watch_status ?d)
        = season_watch_status ?d" by (rule fold_insert_ignore_present)
    from h have "\<forall>(j, e) \<in> set ?es. list_ex (row_matches profileId j) (episode_watch_status ?d)"
      by auto
    then have c: "fold (\<lambda>(j, e). insert_ignore profileId j) ?es (episode_watch_status ?d)
        = episode_watch_status ?d" by (rule fold_insert_ignore_present)
    show ?thesis unfolding d' a b c by simp
  qed
  have tables: "seasons ?d' = seasons ?d" "episodes ?d' = episodes ?d"
      "shows_table ?d' = shows_table ?d"
    unfolding d' by simp_all
  have k1: "distinct (map assoc_key (show_watch_status ?d')) "
    if "distinct (map assoc_key (show_watch_status ?d))"
    unfolding d' using insert_ignore_distinct[OF that, of profileId i] by simp
  have k2: "distinct (map assoc_key (season_watch_status ?d'))"
    if "distinct (map assoc_key (season_watch_status ?d))"
    unfolding d' using fold_insert_ignore_distinct[OF that, of profileId ?ss] by simp
  have k3: "distinct (map assoc_key (episode_watch_status ?d'))"
    if "distinct (map assoc_key (episode_watch_status ?d))"
    unfolding d' using fold_insert_ignore_distinct[OF that, of profileId ?es] by simp
  show ?thesis
    using tables k1 k2 k3 same by blast
qed


text \<open>Profile 1 favorites show 1399 on a blank store; after the load, it favorites it
  again.\<close>

lemma example_load_round_1:
  "loadSeasons no_faults example_tmdb 1399 1 ''1'' [example_tmdb_season 3624 1] fresh_db =
     (Inr (),
      fresh_db\<lparr>seasons := [(1, Season_of (example_tmdb_season 3624 1) 1)],
               season_watch_status := [example_row ''1'' 1 NOT_WATCHED],
               episodes := [(1, createEpisode (example_tmdb_episode 63056 1) 1 1),
                            (2, createEpisode (example_tmdb_episode 63057 2) 1 1)],
               episode_watch_status := [example_row ''1'' 1 NOT_WATCHED,
                                        example_row ''1'' 2 NOT_WATCHED]\<rparr>)"
  by (simp add: example_tmdb_def example_tmdb_season_def example_details_def
      Season_save_def Season_saveFavorite_def episodesDb_saveEpisode_def
      episodesDb_saveFavorite_def no_faults_def insertId_def insert_ignore_def
      fresh_db_def example_row_def default_status_def row_matches_def Let_def)

lemma example_load_round_2:
  "loadSeasons no_faults example_tmdb 1399 1 ''1'' [example_tmdb_season 3625 2]
     (fresh_db\<lparr>seasons := [(1, Season_of (example_tmdb_season 3624 1) 1)],
               season_watch_status := [example_row ''1'' 1 NOT_WATCHED],
               episodes := [(1, createEpisode (example_tmdb_episode 63056 1) 1 1),
                            (2, createEpisode (example_tmdb_episode 63057 2) 1 1)],
               episode_watch_status := [example_row ''1'' 1 NOT_WATCHED,
                                        example_row ''1'' 2 NOT_WATCHED]\<rparr>) =
     (Inr (),
      fresh_db\<lparr>seasons := [(1, Season_of (example_tmdb_season 3624 1) 1),
                           (2, Season_of (example_tmdb_season 3625 2) 1)],
               season_watch_status := [example_row ''1'' 1 NOT_WATCHED,
                                       example_row ''1'' 2 NOT_WATCHED],
               episodes := [(1, createEpisode (example_tmdb_episode 63056 1) 1 1),
                            (2, createEpisode (example_tmdb_episode 63057 2) 1 1),
                            (3, createEpisode (example_tmdb_episode 63066 1) 1 2)],
               episode_watch_status := [example_row ''1'' 1 NOT_WATCHED,
                                        example_row ''1'' 2 NOT_WATCHED,
                                        example_row ''1'' 3 NOT_WATCHED]\<rparr>)"
  by (simp add: example_tmdb_def example_tmdb_season_def example_details_def
      Season_save_def Season_saveFavorite_def episodesDb_saveEpisode_def
      episodesDb_saveFavorite_def no_faults_def insertId_def insert_ignore_def
      example_row_def default_status_def row_matches_def Let_def
      numeral_2_eq_2 numeral_3_eq_3)

lemma example_full_load:
  "loadSeasons no_faults example_tmdb 1399 1 ''1''
     ([example_tmdb_season 3624 1] @ [example_tmdb_season 3625 2]) fresh_db =
     (Inr (),
      fresh_db\<lparr>seasons := [(1, Season_of (example_tmdb_season 3624 1) 1),
                           (2, Season_of (example_tmdb_season 3625 2) 1)],
               season_watch_status := [example_row ''1'' 1 NOT_WATCHED,
                                       example_row ''1'' 2 NOT_WATCHED],
               episodes := [(1, createEpisode (example_tmdb_episode 63056 1) 1 1),
                            (2, createEpisode (example_tmdb_episode 63057 2) 1 1),
                            (3, createEpisode (example_tmdb_episode 63066 1) 1 2)],
               episode_watch_status := [example_row ''1'' 1 NOT_WATCHED,
                                        example_row ''1'' 2 NOT_WATCHED,
                                        example_row ''1'' 3 NOT_WATCHED]\<rparr>)"
  by (simp only: loadSeasons_append example_load_round_1 example_load_round_2
      prod.case sum.case)

lemma first_ingestion_db:
  "w_db first_ingestion =
     snd (loadSeasons no_faults example_tmdb 1399 1 ''1''
            ([example_tmdb_season 3624 1] @ [example_tmdb_season 3625 2]) fresh_db)"
proof -
  let ?M = "spec_show_model no_faults"
  let ?w1 = "invalidateProfileCache ''1'' (blank_world\<lparr>w_db := fresh_db\<rparr>)"
  have valid: "filter (\<lambda>season. ts_season_number season > 0) (tsh_seasons example_show) =
     [example_tmdb_season 3624 1] @ [example_tmdb_season 3625 2]"
    by (simp add: example_show_def example_tmdb_season_def)
  have t: "tsh_id example_show = 1399" by (simp add: example_show_def)
  have w1: "w_db ?w1 = fresh_db"
    by (simp add: invalidateProfileCache_def invalidatePattern_def)
  have unknown: "Show_findByTMDBId ?M 1399 (w_db blank_world) = Inr None"
    by (simp add: spec_show_model_def spec_findByTMDBId_def no_faults_def blank_world_def
        blank_db_def)
  have details: "getShowDetails example_tmdb 1399 = Inr example_show"
    by (simp add: example_tmdb_def)
  have saved: "Show_save ?M \<lparr>sh_tmdb_id = tsh_id example_show, sh_title = tsh_name example_show\<rparr>
      (w_db blank_world) = (Inr (Some 1), fresh_db\<lparr>show_watch_status := []\<rparr>)"
    by (simp add: spec_show_model_def spec_save_def no_faults_def blank_world_def blank_db_def
        fresh_db_def insertId_def example_show_def)
  have favorited: "Show_saveFavorite ?M 1 ''1'' False (fresh_db\<lparr>show_watch_status := []\<rparr>)
      = (Inr (), fresh_db)"
    by (simp add: spec_show_model_def spec_saveFavorite_def no_faults_def fresh_db_def
        insert_ignore_def example_row_def default_status_def)
  have view: "Show_getShowForProfile ?M ''1'' 1 (w_db ?w1) = Inr (Some (ShowView 1 NOT_WATCHED))"
    unfolding w1
    by (simp add: spec_show_model_def spec_getShowForProfile_def no_faults_def fresh_db_def
        example_row_def row_matches_def)
  have "favoriteNewShow no_faults example_tmdb ?M 1399 ''1'' blank_world =
      (Inr \<lparr>favoritedShow = Some (ShowView 1 NOT_WATCHED), episodeData = None\<rparr>,
       snd (fetchSeasonsAndEpisodes no_faults example_tmdb ?M example_show 1 ''1'' ?w1))"
    unfolding favoriteNewShow_def
    by (simp only: details saved favorited view sum.case prod.case option.case Let_def)
  then have fi: "first_ingestion =
      snd (fetchSeasonsAndEpisodes no_faults example_tmdb ?M example_show 1 ''1'' ?w1)"
    unfolding first_ingestion_def addShowToFavorites_def
    by (simp only: unknown sum.case prod.case option.case snd_conv)
  show ?thesis
    unfolding fi fetchSeasonsAndEpisodes_db valid t w1 by (rule refl)
qed


theorem refavoriting_adds_no_rows_witness:
  "map fst (seasons (w_db first_ingestion)) = [1, 2]
   \<and> map fst (episodes (w_db first_ingestion)) = [1, 2, 3]
   \<and> w_db (snd (addShowToFavorites no_faults example_tmdb (spec_show_model no_faults) ''1'' 1399
                 first_ingestion)) = w_db first_ingestion"
proof -
  let ?d = "fresh_db\<lparr>seasons := [(1, Season_of (example_tmdb_season 3624 1) 1),
                           (2, Season_of (example_tmdb_season 3625 2) 1)],
               season_watch_status := [example_row ''1'' 1 NOT_WATCHED,
                                       example_row ''1'' 2 NOT_WATCHED],
               episodes := [(1, createEpisode (example_tmdb_episode 63056 1) 1 1),
                            (2, createEpisode (example_tmdb_episode 63057 2) 1 1),
                            (3, createEpisode (example_tmdb_episode 63066 1) 1 2)],
               episode_watch_status := [example_row ''1'' 1 NOT_WATCHED,
                                        example_row ''1'' 2 NOT_WATCHED,
                                        example_row ''1'' 3 NOT_WATCHED]\<rparr>"
  have db: "w_db first_ingestion = ?d"
    by (simp only: first_ingestion_db example_full_load snd_conv)
  have known: "spec_findByTMDBId no_faults 1399 ?d
      = Inr (Some (1, \<lparr>sh_tmdb_id = 1399, sh_title = ''Show''\<rparr>))"
    by (simp add: spec_findByTMDBId_def no_faults_def fresh_db_def)
  have f1: "list_ex (row_matches ''1'' 1) (show_watch_status ?d)"
    by (simp add: fresh_db_def example_row_def row_matches_def)
  have f2: "\<forall>(j, s) \<in> set (seasons ?d). s_show_id s = 1 \<longrightarrow>
               list_ex (row_matches ''1'' j) (season_watch_status ?d)"
    by (simp add: example_row_def row_matches_def)
  have f3: "\<forall>(j, e) \<in> set (episodes ?d). e_show_id e = 1 \<longrightarrow>
               list_ex (row_matches ''1'' j) (episode_watch_status ?d)"
    by (simp add: example_row_def row_matches_def)
  from refavoriting_adds_no_rows[where F = no_faults and w = first_ingestion
      and P = example_tmdb and profileId = "''1''", unfolded db, OF known] f1 f2 f3
  have same: "w_db (snd (addShowToFavorites no_faults example_tmdb (spec_show_model no_faults)
      ''1'' 1399 first_ingestion)) = ?d" by blast
  show ?thesis
    unfolding same db by simp
qed

end
